theory Spec2Isabelle
  imports Main "HOL-Library.Word" "HOL-Library.Signed_Division"
begin

unbundle bit_operations_syntax

section \<open>The raw audio parser gstdiscret11audioparse.c\<close>

text \<open>
  A shallow embedding of \<^verbatim>\<open>gstdiscret11audioparse.c\<close> and of the declarations of
  \<^verbatim>\<open>gstdiscret11audioparse.h\<close> and \<^verbatim>\<open>gstdiscret11parse.h\<close>.

  C's \<^verbatim>\<open>guint\<close> and \<^verbatim>\<open>gint\<close> are 32-bit words (\<open>+\<close>, \<open>*\<close> wrap, \<open>div\<close> is the
  unsigned division; a \<^verbatim>\<open>gint\<close> is read with \<open>sint\<close> where its sign matters). An enum of
  the GStreamer library is an \<open>int\<close>. A fixed-size C array is a list whose length is the
  array's capacity. \<^verbatim>\<open>g_assert\<close>, a NULL dereference and a write past the end of an array
  end the run: they are the \<open>Inl\<close> results.
\<close>

type_synonym guint = "32 word"
type_synonym gint = "32 word"
type_synonym guint64 = "64 word"
type_synonym GstAudioFormat = int
type_synonym GstAudioChannelPosition = int
type_synonym GstBuffer = "8 word list"

datatype error = AssertionFailed | NullDereference | OutOfBounds

definition bind_result :: "error + 'a \<Rightarrow> ('a \<Rightarrow> error + 'b) \<Rightarrow> error + 'b" where
  "bind_result r f = (case r of Inl e \<Rightarrow> Inl e | Inr x \<Rightarrow> f x)"

subsection \<open>Declarations of the headers\<close>

datatype GstDiscret11AudioParseFormat =
  GST_DISCRET11_AUDIO_PARSE_FORMAT_PCM
  | GST_DISCRET11_AUDIO_PARSE_FORMAT_MULAW
  | GST_DISCRET11_AUDIO_PARSE_FORMAT_ALAW

datatype GstDiscret11ParseConfig =
  GST_DISCRET11_PARSE_CONFIG_CURRENT
  | GST_DISCRET11_PARSE_CONFIG_SINKCAPS
  | GST_DISCRET11_PARSE_CONFIG_PROPERTIES

record GstDiscret11AudioParseConfig =
  ready :: bool
  format :: GstDiscret11AudioParseFormat
  pcm_format :: GstAudioFormat
  bpf :: guint
  sample_rate :: guint
  num_channels :: guint
  interleaved :: bool
  channel_positions :: "GstAudioChannelPosition list"
  reordered_channel_positions :: "GstAudioChannelPosition list"
  needs_channel_reordering :: bool

text \<open>
  \<^verbatim>\<open>current_config\<close> points to one of the two configurations of the element, or is NULL
  (\<open>None\<close>) before \<^verbatim>\<open>gst_discret11_audio_parse_init\<close> has run.
\<close>

datatype config_ptr = properties_config_ptr | sink_caps_config_ptr

text \<open>
  The element. \<open>src_caps_set\<close> is the field of the parent \<^verbatim>\<open>GstDiscret11Parse\<close>;
  \<open>min_frame_size\<close> is what \<^verbatim>\<open>gst_base_parse_set_min_frame_size\<close> last stored in the base
  parser.
\<close>

record GstDiscret11AudioParse =
  src_caps_set :: bool
  min_frame_size :: guint
  properties_config :: GstDiscret11AudioParseConfig
  sink_caps_config :: GstDiscret11AudioParseConfig
  current_config :: "config_ptr option"

definition deref :: "GstDiscret11AudioParse \<Rightarrow> config_ptr \<Rightarrow> GstDiscret11AudioParseConfig" where
  "deref s p = (case p of properties_config_ptr \<Rightarrow> properties_config s
                        | sink_caps_config_ptr \<Rightarrow> sink_caps_config s)"

definition store ::
  "GstDiscret11AudioParse \<Rightarrow> config_ptr \<Rightarrow> GstDiscret11AudioParseConfig \<Rightarrow> GstDiscret11AudioParse" where
  "store s p c = (case p of properties_config_ptr \<Rightarrow> s\<lparr>properties_config := c\<rparr>
                          | sink_caps_config_ptr \<Rightarrow> s\<lparr>sink_caps_config := c\<rparr>)"

subsection \<open>Capabilities\<close>

text \<open>
  Modelled from the spec: a capability description is a media type with attributes. A
  \<^verbatim>\<open>GstStructure\<close> is its name and its typed fields, a \<^verbatim>\<open>GstCaps\<close> the list of its
  structures; the accessors below are those of the GStreamer core, which is not among the
  sources: a field is read when it is there with the asked type, and a NULL structure has no
  name.
\<close>

datatype GValue = G_TYPE_INT gint | GST_TYPE_BITMASK guint64 | G_TYPE_STRING string

record GstStructure =
  structure_name :: string
  structure_fields :: "(string \<times> GValue) list"

type_synonym GstCaps = "GstStructure list"

definition gst_caps_get_structure :: "GstCaps \<Rightarrow> nat \<Rightarrow> GstStructure option" where
  "gst_caps_get_structure caps i = (if i < length caps then Some (caps ! i) else None)"

definition gst_structure_has_name :: "GstStructure option \<Rightarrow> string \<Rightarrow> bool" where
  "gst_structure_has_name structure n =
     (case structure of None \<Rightarrow> False | Some st \<Rightarrow> structure_name st = n)"

definition gst_structure_get_int :: "GstStructure option \<Rightarrow> string \<Rightarrow> gint option" where
  "gst_structure_get_int structure f =
     (case structure of None \<Rightarrow> None
      | Some st \<Rightarrow> (case map_of (structure_fields st) f of Some (G_TYPE_INT i) \<Rightarrow> Some i | _ \<Rightarrow> None))"

definition gst_structure_get_bitmask :: "GstStructure option \<Rightarrow> string \<Rightarrow> guint64 option" where
  "gst_structure_get_bitmask structure f =
     (case structure of None \<Rightarrow> None
      | Some st \<Rightarrow> (case map_of (structure_fields st) f of Some (GST_TYPE_BITMASK m) \<Rightarrow> Some m | _ \<Rightarrow> None))"

text \<open>The copy of the caps whose first structure is renamed (\<^verbatim>\<open>gst_structure_set_name\<close>).\<close>

definition gst_structure_set_name :: "GstCaps \<Rightarrow> string \<Rightarrow> GstCaps" where
  "gst_structure_set_name caps n =
     (case caps of [] \<Rightarrow> [] | st # rest \<Rightarrow> st\<lparr>structure_name := n\<rparr> # rest)"

definition gst_caps_new_simple :: "string \<Rightarrow> (string \<times> GValue) list \<Rightarrow> GstCaps" where
  "gst_caps_new_simple n fs = [\<lparr>structure_name = n, structure_fields = fs\<rparr>]"

subsection \<open>The GStreamer audio library\<close>

text \<open>
  The functions of the GStreamer audio library that the parser calls are not among the
  sources. They are a parameter \<open>L\<close> of every definition that calls them, one field for
  each function, named as in the C code; a function that writes through a pointer returns
  what it wrote. The fields of \<open>GstAudioFormatInfo\<close> and \<open>GstAudioInfo\<close> are named after the
  accessor macros the parser reads them with.
\<close>

record GstAudioFormatInfo =
  GST_AUDIO_FORMAT_INFO_WIDTH :: gint

datatype GstAudioLayout = GST_AUDIO_LAYOUT_INTERLEAVED | GST_AUDIO_LAYOUT_NON_INTERLEAVED

record GstAudioInfo =
  GST_AUDIO_INFO_FORMAT :: GstAudioFormat
  GST_AUDIO_INFO_LAYOUT :: GstAudioLayout
  GST_AUDIO_INFO_RATE :: gint
  GST_AUDIO_INFO_CHANNELS :: gint
  GST_AUDIO_INFO_BPF :: gint
  GST_AUDIO_INFO_POSITION :: "GstAudioChannelPosition list"

record gst_audio =
  GST_AUDIO_FORMAT_S16 :: GstAudioFormat
  gst_audio_format_get_info :: "GstAudioFormat \<Rightarrow> GstAudioFormatInfo option"
  gst_audio_channel_get_fallback_mask :: "gint \<Rightarrow> guint64"
  gst_audio_channel_positions_from_mask ::
    "gint \<Rightarrow> guint64 \<Rightarrow> GstAudioChannelPosition list \<Rightarrow> bool \<times> GstAudioChannelPosition list"
  gst_audio_check_valid_channel_positions ::
    "GstAudioChannelPosition list \<Rightarrow> gint \<Rightarrow> bool \<Rightarrow> bool"
  gst_audio_channel_positions_to_valid_order ::
    "GstAudioChannelPosition list \<Rightarrow> gint \<Rightarrow> bool \<times> GstAudioChannelPosition list"
  gst_audio_channel_positions_to_mask ::
    "GstAudioChannelPosition list \<Rightarrow> gint \<Rightarrow> bool \<Rightarrow> guint64 option"
  gst_audio_info_from_caps :: "GstCaps \<Rightarrow> GstAudioInfo option"
  gst_audio_info_set_format ::
    "GstAudioFormat \<Rightarrow> gint \<Rightarrow> gint \<Rightarrow> GstAudioChannelPosition list \<Rightarrow> GstAudioInfo"
  gst_audio_info_to_caps :: "GstAudioInfo \<Rightarrow> GstCaps option"
  gst_audio_buffer_reorder_channels ::
    "GstBuffer \<Rightarrow> GstAudioFormat \<Rightarrow> gint \<Rightarrow> GstAudioChannelPosition list
       \<Rightarrow> GstAudioChannelPosition list \<Rightarrow> bool \<times> GstBuffer"

text \<open>
  \<^verbatim>\<open>memcpy (dst, src, sizeof (GstAudioChannelPosition) * n)\<close> on two position arrays: the
  first \<open>n\<close> entries of \<open>dst\<close> are replaced; reading or writing past an array's end is
  \<open>OutOfBounds\<close>.
\<close>

definition memcpy_positions ::
  "GstAudioChannelPosition list \<Rightarrow> GstAudioChannelPosition list \<Rightarrow> nat
     \<Rightarrow> error + GstAudioChannelPosition list" where
  "memcpy_positions dst src n =
     (if n \<le> length dst \<and> n \<le> length src then Inr (take n src @ drop n dst)
      else Inl OutOfBounds)"

text \<open>\<^verbatim>\<open>#define GST_ROUND_UP_8(num) (((num)+7)&~7)\<close> of the GStreamer core.\<close>

definition GST_ROUND_UP_8 :: "gint \<Rightarrow> gint" where
  "GST_ROUND_UP_8 num = (num + 7) AND NOT 7"

text \<open>C's division of two \<^verbatim>\<open>gint\<close>: it truncates towards zero.\<close>

definition gint_div :: "gint \<Rightarrow> gint \<Rightarrow> gint" where
  "gint_div a b = word_of_int (sint a sdiv sint b)"

text \<open>
  Modelled from the spec: \<^verbatim>\<open>gst_buffer_copy_region\<close> of the GStreamer core gives a new
  buffer of \<open>size\<close> bytes of the input from \<open>offset\<close> on, and NULL when the region is not
  inside the input.
\<close>

definition gst_buffer_copy_region :: "GstBuffer \<Rightarrow> nat \<Rightarrow> nat \<Rightarrow> GstBuffer option" where
  "gst_buffer_copy_region buf offset size' =
     (if offset + size' \<le> length buf then Some (take size' (drop offset buf)) else None)"

subsection \<open>The configuration functions\<close>

definition gst_discret11_audio_parse_is_using_sink_caps :: "GstDiscret11AudioParse \<Rightarrow> bool" where
  "gst_discret11_audio_parse_is_using_sink_caps s \<longleftrightarrow> current_config s = Some sink_caps_config_ptr"

definition gst_discret11_audio_parse_get_config_ptr ::
  "GstDiscret11AudioParse \<Rightarrow> GstDiscret11ParseConfig \<Rightarrow> error + config_ptr" where
  "gst_discret11_audio_parse_get_config_ptr s config =
     (case current_config s of
        None \<Rightarrow> Inl AssertionFailed
      | Some cur \<Rightarrow>
          (case config of
             GST_DISCRET11_PARSE_CONFIG_PROPERTIES \<Rightarrow> Inr properties_config_ptr
           | GST_DISCRET11_PARSE_CONFIG_SINKCAPS \<Rightarrow> Inr sink_caps_config_ptr
           | GST_DISCRET11_PARSE_CONFIG_CURRENT \<Rightarrow> Inr cur))"

definition gst_discret11_audio_parse_set_config_channels ::
  "gst_audio \<Rightarrow> GstDiscret11AudioParseConfig \<Rightarrow> guint \<Rightarrow> guint64 \<Rightarrow> bool
     \<Rightarrow> error + (bool \<times> GstDiscret11AudioParseConfig)" where
  "gst_discret11_audio_parse_set_config_channels L config n channel_mask set_positions =
     (if n = 0 then Inl AssertionFailed
      else
        let config = config\<lparr>num_channels := n, needs_channel_reordering := False\<rparr> in
        if set_positions then
          let channel_mask =
                (if channel_mask = 0
                 then gst_audio_channel_get_fallback_mask L (num_channels config)
                 else channel_mask);
              r = gst_audio_channel_positions_from_mask L (num_channels config) channel_mask
                    (channel_positions config)
          in Inr (fst r, config\<lparr>channel_positions := snd r\<rparr>)
        else Inr (True, config))"

definition gst_discret11_audio_parse_update_channel_reordering_flag ::
  "gst_audio \<Rightarrow> GstDiscret11AudioParseConfig \<Rightarrow> error + (bool \<times> GstDiscret11AudioParseConfig)" where
  "gst_discret11_audio_parse_update_channel_reordering_flag L config =
     (if num_channels config = 0 then Inl AssertionFailed
      else if gst_audio_check_valid_channel_positions L (channel_positions config)
                (num_channels config) True
      then Inr (True, config\<lparr>needs_channel_reordering := False\<rparr>)
      else
        let config = config\<lparr>needs_channel_reordering := True\<rparr> in
        bind_result
          (memcpy_positions (reordered_channel_positions config) (channel_positions config)
             (unat (num_channels config)))
          (\<lambda>copied.
             let r = gst_audio_channel_positions_to_valid_order L copied (num_channels config)
             in Inr (fst r, config\<lparr>reordered_channel_positions := snd r\<rparr>)))"

definition gst_discret11_audio_parse_update_config_bpf ::
  "gst_audio \<Rightarrow> GstDiscret11AudioParseConfig \<Rightarrow> error + GstDiscret11AudioParseConfig" where
  "gst_discret11_audio_parse_update_config_bpf L config =
     (case format config of
        GST_DISCRET11_AUDIO_PARSE_FORMAT_PCM \<Rightarrow>
          (case gst_audio_format_get_info L (pcm_format config) of
             None \<Rightarrow> Inl AssertionFailed
           | Some fmt_info \<Rightarrow>
               Inr (config\<lparr>bpf := GST_AUDIO_FORMAT_INFO_WIDTH fmt_info * num_channels config div 8\<rparr>))
      | GST_DISCRET11_AUDIO_PARSE_FORMAT_ALAW \<Rightarrow> Inr (config\<lparr>bpf := 1 * num_channels config\<rparr>)
      | GST_DISCRET11_AUDIO_PARSE_FORMAT_MULAW \<Rightarrow> Inr (config\<lparr>bpf := 1 * num_channels config\<rparr>))"

definition gst_discret11_audio_parse_init_config ::
  "gst_audio \<Rightarrow> GstDiscret11AudioParseConfig \<Rightarrow> error + GstDiscret11AudioParseConfig" where
  "gst_discret11_audio_parse_init_config L config =
     (let config = config\<lparr>ready := False,
                           format := GST_DISCRET11_AUDIO_PARSE_FORMAT_PCM,
                           pcm_format := GST_AUDIO_FORMAT_S16 L,
                           bpf := 0,
                           sample_rate := 44100,
                           num_channels := 2,
                           interleaved := True,
                           needs_channel_reordering := False\<rparr>
      in bind_result
           (gst_discret11_audio_parse_set_config_channels L config (num_channels config) 0 True)
           (\<lambda>r. Inr (snd r)))"

definition gst_discret11_audio_parse_init ::
  "gst_audio \<Rightarrow> GstDiscret11AudioParse \<Rightarrow> error + GstDiscret11AudioParse" where
  "gst_discret11_audio_parse_init L s =
     bind_result (gst_discret11_audio_parse_init_config L (properties_config s)) (\<lambda>pc.
     bind_result (gst_discret11_audio_parse_init_config L (sink_caps_config s)) (\<lambda>sc.
     bind_result (gst_discret11_audio_parse_update_config_bpf L (pc\<lparr>ready := True\<rparr>)) (\<lambda>pc.
       Inr (s\<lparr>properties_config := pc, sink_caps_config := sc,
              current_config := Some properties_config_ptr\<rparr>))))"

subsection \<open>Object properties\<close>

text \<open>
  A property id together with the \<^verbatim>\<open>GValue\<close> that \<^verbatim>\<open>set_property\<close> reads for it. The
  boxed value of \<^verbatim>\<open>channel-positions\<close> is NULL (\<open>None\<close>) or an array of positions.
\<close>

datatype property =
  PROP_0
  | PROP_FORMAT GstDiscret11AudioParseFormat
  | PROP_PCM_FORMAT GstAudioFormat
  | PROP_SAMPLE_RATE gint
  | PROP_NUM_CHANNELS gint
  | PROP_INTERLEAVED bool
  | PROP_CHANNEL_POSITIONS "GstAudioChannelPosition list option"

text \<open>
  Modelled from the spec: \<^verbatim>\<open>gst_discret11_parse_invalidate_src_caps\<close> of the parent class,
  which is declared in \<^verbatim>\<open>gstdiscret11parse.h\<close> only, invalidates the output capability
  published before.
\<close>

definition gst_discret11_parse_invalidate_src_caps ::
  "GstDiscret11AudioParse \<Rightarrow> GstDiscret11AudioParse" where
  "gst_discret11_parse_invalidate_src_caps s = s\<lparr>src_caps_set := False\<rparr>"

definition gst_base_parse_set_min_frame_size ::
  "GstDiscret11AudioParse \<Rightarrow> guint \<Rightarrow> GstDiscret11AudioParse" where
  "gst_base_parse_set_min_frame_size s n = s\<lparr>min_frame_size := n\<rparr>"

text \<open>
  What four of the property branches end with: when the properties configuration is the
  current one, the source caps are invalidated and the minimum frame size follows its bpf.
\<close>

definition invalidate_and_resize :: "GstDiscret11AudioParse \<Rightarrow> GstDiscret11AudioParse" where
  "invalidate_and_resize s =
     (if \<not> gst_discret11_audio_parse_is_using_sink_caps s
      then gst_base_parse_set_min_frame_size (gst_discret11_parse_invalidate_src_caps s)
             (bpf (properties_config s))
      else s)"

definition invalidate_only :: "GstDiscret11AudioParse \<Rightarrow> GstDiscret11AudioParse" where
  "invalidate_only s =
     (if \<not> gst_discret11_audio_parse_is_using_sink_caps s
      then gst_discret11_parse_invalidate_src_caps s else s)"

text \<open>
  The loop of the \<^verbatim>\<open>PROP_CHANNEL_POSITIONS\<close> branch: entry \<open>i\<close> of the value array goes to
  \<^verbatim>\<open>channel_positions[i]\<close> for every \<open>i < num_channels\<close>.
\<close>

definition copy_valarray ::
  "GstAudioChannelPosition list \<Rightarrow> GstAudioChannelPosition list \<Rightarrow> nat
     \<Rightarrow> error + GstAudioChannelPosition list" where
  "copy_valarray positions valarray n =
     (if n \<le> length valarray then memcpy_positions positions valarray n
      else Inl NullDereference)"

definition gst_discret11_audio_parse_set_property ::
  "gst_audio \<Rightarrow> GstDiscret11AudioParse \<Rightarrow> property \<Rightarrow> error + GstDiscret11AudioParse" where
  "gst_discret11_audio_parse_set_property L s prop =
     (case prop of
        PROP_FORMAT new_format \<Rightarrow>
          if new_format \<noteq> format (properties_config s) then
            bind_result
              (gst_discret11_audio_parse_update_config_bpf L
                 ((properties_config s)\<lparr>format := new_format\<rparr>))
              (\<lambda>c. Inr (invalidate_and_resize (s\<lparr>properties_config := c\<rparr>)))
          else Inr s
      | PROP_PCM_FORMAT new_pcm_format \<Rightarrow>
          if new_pcm_format \<noteq> pcm_format (properties_config s) then
            bind_result
              (gst_discret11_audio_parse_update_config_bpf L
                 ((properties_config s)\<lparr>pcm_format := new_pcm_format\<rparr>))
              (\<lambda>c. Inr (invalidate_and_resize (s\<lparr>properties_config := c\<rparr>)))
          else Inr s
      | PROP_SAMPLE_RATE new_sample_rate \<Rightarrow>
          if new_sample_rate \<noteq> sample_rate (properties_config s) then
            Inr (invalidate_only
                   (s\<lparr>properties_config := (properties_config s)\<lparr>sample_rate := new_sample_rate\<rparr>\<rparr>))
          else Inr s
      | PROP_NUM_CHANNELS new_num_channels \<Rightarrow>
          if new_num_channels \<noteq> num_channels (properties_config s) then
            bind_result
              (gst_discret11_audio_parse_set_config_channels L (properties_config s)
                 new_num_channels 0 True)
              (\<lambda>r. bind_result
                 (gst_discret11_audio_parse_update_config_bpf L
                    ((snd r)\<lparr>num_channels := new_num_channels\<rparr>))
                 (\<lambda>c. Inr (invalidate_and_resize (s\<lparr>properties_config := c\<rparr>))))
          else Inr s
      | PROP_INTERLEAVED new_interleaved \<Rightarrow>
          if new_interleaved \<noteq> interleaved (properties_config s) then
            Inr (invalidate_only
                   (s\<lparr>properties_config := (properties_config s)\<lparr>interleaved := new_interleaved\<rparr>\<rparr>))
          else Inr s
      | PROP_CHANNEL_POSITIONS valarray \<Rightarrow>
          let config = properties_config s in
          if valarray = Some [] then Inr s
          else
            bind_result
              (case valarray of
                 None \<Rightarrow>
                   if num_channels config \<noteq> 0 then
                     bind_result
                       (gst_discret11_audio_parse_set_config_channels L config
                          (num_channels config) 0 True)
                       (\<lambda>r. Inr (snd r))
                   else Inr config
               | Some vals \<Rightarrow>
                   bind_result
                     (if word_of_nat (length vals) \<noteq> num_channels config
                      then bind_result
                             (gst_discret11_audio_parse_set_config_channels L config
                                (word_of_nat (length vals)) 0 False)
                             (\<lambda>r. Inr (snd r))
                      else Inr config)
                     (\<lambda>config. bind_result
                        (copy_valarray (channel_positions config) vals (unat (num_channels config)))
                        (\<lambda>ps. bind_result
                           (gst_discret11_audio_parse_update_channel_reordering_flag L
                              (config\<lparr>channel_positions := ps\<rparr>))
                           (\<lambda>r. Inr (snd r)))))
              (\<lambda>config. bind_result
                 (gst_discret11_audio_parse_update_config_bpf L config)
                 (\<lambda>c. Inr (invalidate_and_resize (s\<lparr>properties_config := c\<rparr>))))
      | PROP_0 \<Rightarrow> Inr s)"

subsection \<open>The virtual functions of the parser\<close>

text \<open>
  The value returned is that of the parent class's \<^verbatim>\<open>stop\<close>, which is not among the
  sources; the audio parser itself only clears the ready flag.
\<close>

definition gst_discret11_audio_parse_stop :: "GstDiscret11AudioParse \<Rightarrow> GstDiscret11AudioParse" where
  "gst_discret11_audio_parse_stop s = s\<lparr>sink_caps_config := (sink_caps_config s)\<lparr>ready := False\<rparr>\<rparr>"

definition gst_discret11_audio_parse_set_current_config ::
  "GstDiscret11AudioParse \<Rightarrow> GstDiscret11ParseConfig \<Rightarrow> error + (bool \<times> GstDiscret11AudioParse)" where
  "gst_discret11_audio_parse_set_current_config s config =
     (case config of
        GST_DISCRET11_PARSE_CONFIG_PROPERTIES \<Rightarrow>
          Inr (True, s\<lparr>current_config := Some properties_config_ptr\<rparr>)
      | GST_DISCRET11_PARSE_CONFIG_SINKCAPS \<Rightarrow>
          Inr (True, s\<lparr>current_config := Some sink_caps_config_ptr\<rparr>)
      | GST_DISCRET11_PARSE_CONFIG_CURRENT \<Rightarrow> Inl AssertionFailed)"

definition gst_discret11_audio_parse_get_current_config ::
  "GstDiscret11AudioParse \<Rightarrow> GstDiscret11ParseConfig" where
  "gst_discret11_audio_parse_get_current_config s =
     (if gst_discret11_audio_parse_is_using_sink_caps s
      then GST_DISCRET11_PARSE_CONFIG_SINKCAPS
      else GST_DISCRET11_PARSE_CONFIG_PROPERTIES)"

definition gst_discret11_audio_parse_get_config_frame_size ::
  "GstDiscret11AudioParse \<Rightarrow> GstDiscret11ParseConfig \<Rightarrow> error + guint" where
  "gst_discret11_audio_parse_get_config_frame_size s config =
     bind_result (gst_discret11_audio_parse_get_config_ptr s config) (\<lambda>p. Inr (bpf (deref s p)))"

definition gst_discret11_audio_parse_is_config_ready ::
  "GstDiscret11AudioParse \<Rightarrow> GstDiscret11ParseConfig \<Rightarrow> error + bool" where
  "gst_discret11_audio_parse_is_config_ready s config =
     bind_result (gst_discret11_audio_parse_get_config_ptr s config) (\<lambda>p. Inr (ready (deref s p)))"

definition round_up_pow2 :: "guint \<Rightarrow> guint" where
  "round_up_pow2 n =
     (let n = n - 1;
          n = n OR drop_bit 1 n;
          n = n OR drop_bit 2 n;
          n = n OR drop_bit 4 n;
          n = n OR drop_bit 8 n;
          n = n OR drop_bit 16 n
      in n + 1)"

definition gst_discret11_audio_parse_get_alignment ::
  "gst_audio \<Rightarrow> GstDiscret11AudioParse \<Rightarrow> GstDiscret11ParseConfig \<Rightarrow> error + gint" where
  "gst_discret11_audio_parse_get_alignment L s config =
     bind_result (gst_discret11_audio_parse_get_config_ptr s config) (\<lambda>p.
       let config_ptr = deref s p in
       if format config_ptr \<noteq> GST_DISCRET11_AUDIO_PARSE_FORMAT_PCM then Inr 1
       else
         (case gst_audio_format_get_info L (pcm_format config_ptr) of
            None \<Rightarrow> Inl NullDereference
          | Some fmt_info \<Rightarrow>
              let width = gint_div (GST_AUDIO_FORMAT_INFO_WIDTH fmt_info) 8;
                  width = GST_ROUND_UP_8 width;
                  width = round_up_pow2 width
              in Inr width))"

text \<open>
  \<^verbatim>\<open>process\<close> returns TRUE and stores the new buffer, or NULL, in \<^verbatim>\<open>*processed_data\<close>. The
  value the library's in-place reordering returns is dropped, as in the C code; a NULL copy
  stays NULL.
\<close>

definition gst_discret11_audio_parse_process ::
  "gst_audio \<Rightarrow> GstDiscret11AudioParse \<Rightarrow> GstDiscret11ParseConfig \<Rightarrow> GstBuffer \<Rightarrow> nat \<Rightarrow> nat
     \<Rightarrow> error + (bool \<times> GstBuffer option)" where
  "gst_discret11_audio_parse_process L s config in_data total_num_in_bytes num_valid_in_bytes =
     bind_result (gst_discret11_audio_parse_get_config_ptr s config) (\<lambda>p.
       let config_ptr = deref s p in
       if format config_ptr = GST_DISCRET11_AUDIO_PARSE_FORMAT_PCM
          \<and> needs_channel_reordering config_ptr
       then
         (case gst_buffer_copy_region in_data 0 num_valid_in_bytes of
            None \<Rightarrow> Inr (True, None)
          | Some outbuf \<Rightarrow>
              Inr (True, Some (snd (gst_audio_buffer_reorder_channels L outbuf
                                      (pcm_format config_ptr) (num_channels config_ptr)
                                      (channel_positions config_ptr)
                                      (reordered_channel_positions config_ptr)))))
       else Inr (True, None))"

subsection \<open>Between capabilities and configurations\<close>

text \<open>
  \<^verbatim>\<open>caps_to_config\<close> writes the fields of \<^verbatim>\<open>*config\<close> one after the other and leaves
  through \<^verbatim>\<open>done\<close> with what it has written so far; \<open>ready\<close> is set on the way out, and
  only when \<^verbatim>\<open>ret\<close> is TRUE.
\<close>

definition gst_discret11_audio_parse_caps_to_config ::
  "gst_audio \<Rightarrow> GstCaps \<Rightarrow> GstDiscret11AudioParseConfig
     \<Rightarrow> error + (bool \<times> GstDiscret11AudioParseConfig)" where
  "gst_discret11_audio_parse_caps_to_config L caps config =
     (let caps = (if gst_structure_has_name (gst_caps_get_structure caps 0) ''audio/x-unaligned-raw''
                  then gst_structure_set_name caps ''audio/x-raw'' else caps);
          structure = gst_caps_get_structure caps 0
      in
        if gst_structure_has_name structure ''audio/x-raw'' then
          (case gst_audio_info_from_caps L caps of
             None \<Rightarrow> Inr (False, config)
           | Some info \<Rightarrow>
               let n = GST_AUDIO_INFO_CHANNELS info;
                   config = config\<lparr>format := GST_DISCRET11_AUDIO_PARSE_FORMAT_PCM,
                                   pcm_format := GST_AUDIO_INFO_FORMAT info,
                                   bpf := GST_AUDIO_INFO_BPF info,
                                   sample_rate := GST_AUDIO_INFO_RATE info,
                                   interleaved :=
                                     (GST_AUDIO_INFO_LAYOUT info = GST_AUDIO_LAYOUT_INTERLEAVED)\<rparr>
               in bind_result (gst_discret11_audio_parse_set_config_channels L config n 0 False)
                    (\<lambda>r. bind_result
                       (memcpy_positions (channel_positions (snd r))
                          (GST_AUDIO_INFO_POSITION info) (unat n))
                       (\<lambda>ps. Inr (True, (snd r)\<lparr>channel_positions := ps, ready := True\<rparr>))))
        else if gst_structure_has_name structure ''audio/x-alaw''
                \<or> gst_structure_has_name structure ''audio/x-mulaw'' then
          let config = config\<lparr>format :=
                         (if gst_structure_has_name structure ''audio/x-alaw''
                          then GST_DISCRET11_AUDIO_PARSE_FORMAT_ALAW
                          else GST_DISCRET11_AUDIO_PARSE_FORMAT_MULAW)\<rparr>
          in
            (case gst_structure_get_int structure ''rate'' of
               None \<Rightarrow> Inr (False, config)
             | Some i \<Rightarrow>
                 let config = config\<lparr>sample_rate := i\<rparr> in
                 (case gst_structure_get_int structure ''channels'' of
                    None \<Rightarrow> Inr (False, config)
                  | Some n \<Rightarrow>
                      let channel_mask =
                            (case gst_structure_get_bitmask structure ''channel-mask'' of
                               None \<Rightarrow> gst_audio_channel_get_fallback_mask L n
                             | Some m \<Rightarrow> m)
                      in bind_result
                           (gst_discret11_audio_parse_set_config_channels L config n channel_mask True)
                           (\<lambda>r. if \<not> fst r then Inr (False, snd r)
                                else Inr (True, (snd r)\<lparr>bpf := 1 * n, ready := True\<rparr>))))
        else Inr (False, config))"

text \<open>
  \<^verbatim>\<open>config_to_caps\<close> returns \<^verbatim>\<open>ret\<close> and \<^verbatim>\<open>*caps\<close>. It reads the configuration only. In
  the PCM branch \<^verbatim>\<open>ret\<close> stays TRUE whatever \<^verbatim>\<open>gst_audio_info_to_caps\<close> returns. The
  pointer \<^verbatim>\<open>caps\<close> that the function asserts not to be NULL is the place of the result; it is
  the pair's second component here, so the assertion has no counterpart.
\<close>

definition gst_discret11_audio_parse_config_to_caps ::
  "gst_audio \<Rightarrow> GstDiscret11AudioParseConfig \<Rightarrow> bool \<times> GstCaps option" where
  "gst_discret11_audio_parse_config_to_caps L config =
     (if bpf config = 0 then (False, None)
      else
        let positions = (if needs_channel_reordering config
                         then reordered_channel_positions config
                         else channel_positions config)
        in
          (case format config of
             GST_DISCRET11_AUDIO_PARSE_FORMAT_PCM \<Rightarrow>
               (True, gst_audio_info_to_caps L
                        (gst_audio_info_set_format L (pcm_format config) (sample_rate config)
                           (num_channels config) positions))
           | _ \<Rightarrow>
               (case gst_audio_channel_positions_to_mask L positions (num_channels config) True of
                  None \<Rightarrow> (False, None)
                | Some channel_mask \<Rightarrow>
                    (True, Some (gst_caps_new_simple
                       (if format config = GST_DISCRET11_AUDIO_PARSE_FORMAT_ALAW
                        then ''audio/x-alaw'' else ''audio/x-mulaw'')
                       [(''rate'', G_TYPE_INT (sample_rate config)),
                        (''channels'', G_TYPE_INT (num_channels config)),
                        (''channel-mask'', GST_TYPE_BITMASK channel_mask)])))))"

definition gst_discret11_audio_parse_set_config_from_caps ::
  "gst_audio \<Rightarrow> GstDiscret11AudioParse \<Rightarrow> GstDiscret11ParseConfig \<Rightarrow> GstCaps
     \<Rightarrow> error + (bool \<times> GstDiscret11AudioParse)" where
  "gst_discret11_audio_parse_set_config_from_caps L s config caps =
     bind_result (gst_discret11_audio_parse_get_config_ptr s config) (\<lambda>p.
     bind_result (gst_discret11_audio_parse_caps_to_config L caps (deref s p)) (\<lambda>r.
       Inr (fst r, store s p (snd r))))"

definition gst_discret11_audio_parse_get_caps_from_config ::
  "gst_audio \<Rightarrow> GstDiscret11AudioParse \<Rightarrow> GstDiscret11ParseConfig
     \<Rightarrow> error + (bool \<times> GstCaps option)" where
  "gst_discret11_audio_parse_get_caps_from_config L s config =
     bind_result (gst_discret11_audio_parse_get_config_ptr s config) (\<lambda>p.
       Inr (gst_discret11_audio_parse_config_to_caps L (deref s p)))"

subsection \<open>An instance of the audio library\<close>

text \<open>
  Modelled from the spec: an instance \<open>gst_audio_lib\<close> of the library's interface, on which
  the embedding is evaluated at concrete inputs. Every theorem below that is stated for a
  library \<open>L\<close> holds for any instance. This one follows the GStreamer audio library in what the
  parser relies on: position codes count from \<^verbatim>\<open>FRONT_LEFT\<close> = 0 in canonical order, with
  \<^verbatim>\<open>NONE\<close> = -3, \<^verbatim>\<open>MONO\<close> = -2 and \<^verbatim>\<open>INVALID\<close> = -1; bit \<open>i\<close> of a channel mask stands for position
  \<open>i\<close>; a layout is valid when its positions are known and distinct, and in canonical order
  when they also ascend; S16 is a 16-bit format.
\<close>

definition GST_AUDIO_CHANNEL_POSITION_NONE :: GstAudioChannelPosition where
  "GST_AUDIO_CHANNEL_POSITION_NONE = - 3"

definition GST_AUDIO_CHANNEL_POSITION_MONO :: GstAudioChannelPosition where
  "GST_AUDIO_CHANNEL_POSITION_MONO = - 2"

definition GST_AUDIO_CHANNEL_POSITION_INVALID :: GstAudioChannelPosition where
  "GST_AUDIO_CHANNEL_POSITION_INVALID = - 1"

definition GST_AUDIO_CHANNEL_POSITION_FRONT_LEFT :: GstAudioChannelPosition where
  "GST_AUDIO_CHANNEL_POSITION_FRONT_LEFT = 0"

definition GST_AUDIO_CHANNEL_POSITION_FRONT_RIGHT :: GstAudioChannelPosition where
  "GST_AUDIO_CHANNEL_POSITION_FRONT_RIGHT = 1"

definition lib_formats :: "(GstAudioFormat \<times> string \<times> gint) list" where
  "lib_formats =
     [(0, ''UNKNOWN'', 0), (1, ''ENCODED'', 0), (2, ''S8'', 8), (3, ''U8'', 8),
      (4, ''S16LE'', 16), (5, ''S16BE'', 16), (6, ''U16LE'', 16), (7, ''U16BE'', 16),
      (8, ''S24_32LE'', 32), (9, ''S24_32BE'', 32), (10, ''U24_32LE'', 32), (11, ''U24_32BE'', 32),
      (12, ''S32LE'', 32), (13, ''S32BE'', 32), (14, ''U32LE'', 32), (15, ''U32BE'', 32),
      (16, ''S24LE'', 24), (17, ''S24BE'', 24), (18, ''U24LE'', 24), (19, ''U24BE'', 24),
      (20, ''S20LE'', 24), (21, ''S20BE'', 24), (22, ''U20LE'', 24), (23, ''U20BE'', 24),
      (24, ''S18LE'', 24), (25, ''S18BE'', 24), (26, ''U18LE'', 24), (27, ''U18BE'', 24),
      (28, ''F32LE'', 32), (29, ''F32BE'', 32), (30, ''F64LE'', 64), (31, ''F64BE'', 64)]"

definition lib_format_get_info :: "GstAudioFormat \<Rightarrow> GstAudioFormatInfo option" where
  "lib_format_get_info f =
     map_option (\<lambda>e. \<lparr>GST_AUDIO_FORMAT_INFO_WIDTH = snd e\<rparr>) (map_of lib_formats f)"

definition lib_format_from_string :: "string \<Rightarrow> GstAudioFormat option" where
  "lib_format_from_string n = map_of (map (\<lambda>e. (fst (snd e), fst e)) lib_formats) n"

definition lib_width :: "GstAudioFormat \<Rightarrow> gint" where
  "lib_width f = (case lib_format_get_info f of None \<Rightarrow> 0 | Some i \<Rightarrow> GST_AUDIO_FORMAT_INFO_WIDTH i)"

definition lib_fallback_mask :: "gint \<Rightarrow> guint64" where
  "lib_fallback_mask channels =
     (if channels = 2 then 0x3 else if channels = 3 then 0xB else if channels = 4 then 0x33
      else if channels = 5 then 0x37 else if channels = 6 then 0x3F
      else if channels = 7 then 0x13F else if channels = 8 then 0xC3F else 0)"

definition lib_default_order :: "nat \<Rightarrow> GstAudioChannelPosition" where
  "lib_default_order i = (if i < 28 then int i else GST_AUDIO_CHANNEL_POSITION_INVALID)"

definition lib_positions_from_mask ::
  "gint \<Rightarrow> guint64 \<Rightarrow> GstAudioChannelPosition list \<Rightarrow> bool \<times> GstAudioChannelPosition list" where
  "lib_positions_from_mask channels channel_mask position =
     (if channel_mask = 0 then
        (if channels = 1 then (True, position[0 := GST_AUDIO_CHANNEL_POSITION_MONO])
         else if channels = 2
         then (True, position[0 := GST_AUDIO_CHANNEL_POSITION_FRONT_LEFT,
                              1 := GST_AUDIO_CHANNEL_POSITION_FRONT_RIGHT])
         else (False, position))
      else
        let found = take (unat channels)
                      (map lib_default_order (filter (\<lambda>i. bit channel_mask i) [0..<64]))
        in (True, take (length position) (found @ drop (length found) position)))"

definition lib_check_valid_channel_positions ::
  "GstAudioChannelPosition list \<Rightarrow> gint \<Rightarrow> bool \<Rightarrow> bool" where
  "lib_check_valid_channel_positions position channels force_order =
     (let ps = take (unat channels) position in
      length ps = unat channels \<and>
      (ps = [GST_AUDIO_CHANNEL_POSITION_MONO]
       \<or> (ps \<noteq> [] \<and> hd ps = GST_AUDIO_CHANNEL_POSITION_NONE)
       \<or> (list_all (\<lambda>x. 0 \<le> x \<and> x < 28) ps \<and> distinct ps \<and> (\<not> force_order \<or> sorted ps))))"

definition lib_positions_to_mask ::
  "GstAudioChannelPosition list \<Rightarrow> gint \<Rightarrow> bool \<Rightarrow> guint64 option" where
  "lib_positions_to_mask position channels force_order =
     (let ps = take (unat channels) position in
      if \<not> lib_check_valid_channel_positions position channels force_order then None
      else if ps = [GST_AUDIO_CHANNEL_POSITION_MONO] \<or> hd ps = GST_AUDIO_CHANNEL_POSITION_NONE
      then Some 0
      else Some (fold (\<lambda>x m. set_bit (nat x) m) ps 0))"

definition lib_positions_to_valid_order ::
  "GstAudioChannelPosition list \<Rightarrow> gint \<Rightarrow> bool \<times> GstAudioChannelPosition list" where
  "lib_positions_to_valid_order position channels =
     (let ps = take (unat channels) position in
      if \<not> lib_check_valid_channel_positions position channels False then (False, position)
      else if ps = [GST_AUDIO_CHANNEL_POSITION_MONO] \<or> hd ps = GST_AUDIO_CHANNEL_POSITION_NONE
      then (True, position)
      else (True, sort ps @ drop (length ps) position))"

text \<open>
  \<^verbatim>\<open>gst_audio_info_set_format\<close> keeps a layout that is in canonical order and falls back to
  the unpositioned layout for any other; \<^verbatim>\<open>gst_audio_info_from_caps\<close> wants the fields
  \<^verbatim>\<open>format\<close>, \<^verbatim>\<open>layout\<close>, \<^verbatim>\<open>rate\<close> and \<^verbatim>\<open>channels\<close>, takes mono and stereo without a channel
  mask as the default layouts and a channel mask of 0 as the unpositioned layout;
  \<^verbatim>\<open>gst_audio_info_to_caps\<close> writes a channel mask for everything but plain mono.
\<close>

definition lib_info_set_format ::
  "GstAudioFormat \<Rightarrow> gint \<Rightarrow> gint \<Rightarrow> GstAudioChannelPosition list \<Rightarrow> GstAudioInfo" where
  "lib_info_set_format f rate channels position =
     \<lparr>GST_AUDIO_INFO_FORMAT = f,
      GST_AUDIO_INFO_LAYOUT = GST_AUDIO_LAYOUT_INTERLEAVED,
      GST_AUDIO_INFO_RATE = rate,
      GST_AUDIO_INFO_CHANNELS = channels,
      GST_AUDIO_INFO_BPF = lib_width f * channels div 8,
      GST_AUDIO_INFO_POSITION =
        (if lib_check_valid_channel_positions position channels True
         then take (unat channels) position
         else replicate (min 64 (unat channels)) GST_AUDIO_CHANNEL_POSITION_NONE)\<rparr>"

definition lib_layout_from_string :: "GValue option \<Rightarrow> GstAudioLayout option" where
  "lib_layout_from_string v =
     (if v = Some (G_TYPE_STRING ''interleaved'') then Some GST_AUDIO_LAYOUT_INTERLEAVED
      else if v = Some (G_TYPE_STRING ''non-interleaved'') then Some GST_AUDIO_LAYOUT_NON_INTERLEAVED
      else None)"

definition lib_positions_from_caps ::
  "gint \<Rightarrow> GValue option \<Rightarrow> GstAudioChannelPosition list option" where
  "lib_positions_from_caps channels v =
     (let unset = replicate 64 GST_AUDIO_CHANNEL_POSITION_INVALID;
          mono = unset[0 := GST_AUDIO_CHANNEL_POSITION_MONO]
      in case v of
           Some (GST_TYPE_BITMASK m) \<Rightarrow>
             if m = 0 \<and> channels = 1 then Some mono
             else if m = 0 then Some (replicate 64 GST_AUDIO_CHANNEL_POSITION_NONE)
             else Some (snd (lib_positions_from_mask channels m unset))
         | _ \<Rightarrow>
             if channels = 1 then Some mono
             else if channels = 2
             then Some (unset[0 := GST_AUDIO_CHANNEL_POSITION_FRONT_LEFT,
                              1 := GST_AUDIO_CHANNEL_POSITION_FRONT_RIGHT])
             else None)"

definition lib_info_from_caps :: "GstCaps \<Rightarrow> GstAudioInfo option" where
  "lib_info_from_caps caps =
     (case caps of
        [] \<Rightarrow> None
      | st # _ \<Rightarrow>
          (case (map_of (structure_fields st) ''format'', map_of (structure_fields st) ''rate'',
                 map_of (structure_fields st) ''channels'') of
             (Some (G_TYPE_STRING fs), Some (G_TYPE_INT rate), Some (G_TYPE_INT channels)) \<Rightarrow>
               (case (lib_format_from_string fs,
                      lib_layout_from_string (map_of (structure_fields st) ''layout''),
                      lib_positions_from_caps channels
                        (map_of (structure_fields st) ''channel-mask'')) of
                  (Some f, Some layout, Some position) \<Rightarrow>
                    if structure_name st = ''audio/x-raw'' \<and> lib_width f \<noteq> 0
                       \<and> channels \<noteq> 0 \<and> channels \<le> 64
                    then Some ((lib_info_set_format f rate channels position)
                                 \<lparr>GST_AUDIO_INFO_LAYOUT := layout\<rparr>)
                    else None
                | _ \<Rightarrow> None)
           | _ \<Rightarrow> None))"

definition lib_info_to_caps :: "GstAudioInfo \<Rightarrow> GstCaps option" where
  "lib_info_to_caps info =
     (case (map_of lib_formats (GST_AUDIO_INFO_FORMAT info),
            lib_positions_to_mask (GST_AUDIO_INFO_POSITION info) (GST_AUDIO_INFO_CHANNELS info) True) of
        (Some e, Some channel_mask) \<Rightarrow>
          Some (gst_caps_new_simple ''audio/x-raw''
            ([(''format'', G_TYPE_STRING (fst e)),
              (''layout'', G_TYPE_STRING
                 (if GST_AUDIO_INFO_LAYOUT info = GST_AUDIO_LAYOUT_INTERLEAVED
                  then ''interleaved'' else ''non-interleaved'')),
              (''rate'', G_TYPE_INT (GST_AUDIO_INFO_RATE info)),
              (''channels'', G_TYPE_INT (GST_AUDIO_INFO_CHANNELS info))]
             @ (if GST_AUDIO_INFO_CHANNELS info = 1
                   \<and> take 1 (GST_AUDIO_INFO_POSITION info) = [GST_AUDIO_CHANNEL_POSITION_MONO]
                then [] else [(''channel-mask'', GST_TYPE_BITMASK channel_mask)])))
      | _ \<Rightarrow> None)"

text \<open>
  The reordering in place: in every frame, the sample of the channel at slot \<open>j\<close> of \<open>from\<close>
  moves to the slot of \<open>to\<close> that holds the same position. The buffer keeps its size; it is
  left as it is when the two layouts are equal, are not a valid pair, or the buffer does not
  hold whole frames.
\<close>

definition lib_index_of :: "'a list \<Rightarrow> 'a \<Rightarrow> nat" where
  "lib_index_of xs x = length (takeWhile (\<lambda>y. y \<noteq> x) xs)"

definition lib_buffer_reorder_channels ::
  "GstBuffer \<Rightarrow> GstAudioFormat \<Rightarrow> gint \<Rightarrow> GstAudioChannelPosition list
     \<Rightarrow> GstAudioChannelPosition list \<Rightarrow> bool \<times> GstBuffer" where
  "lib_buffer_reorder_channels buffer f channels from to =
     (let n = unat channels; src = take n from; dst = take n to; bps = unat (lib_width f) div 8 in
      if src = dst then (True, buffer)
      else if \<not> (lib_check_valid_channel_positions from channels False
                  \<and> lib_check_valid_channel_positions to channels False
                  \<and> set src = set dst \<and> distinct src \<and> 0 < bps
                  \<and> length buffer mod (bps * n) = 0)
      then (False, buffer)
      else (True, map (\<lambda>i. buffer ! (i div (bps * n) * (bps * n)
                                       + lib_index_of src (dst ! (i mod (bps * n) div bps)) * bps
                                       + i mod bps))
                    [0..<length buffer]))"

definition gst_audio_lib :: gst_audio where
  "gst_audio_lib =
     \<lparr>GST_AUDIO_FORMAT_S16 = 4,
      gst_audio_format_get_info = lib_format_get_info,
      gst_audio_channel_get_fallback_mask = lib_fallback_mask,
      gst_audio_channel_positions_from_mask = lib_positions_from_mask,
      gst_audio_check_valid_channel_positions = lib_check_valid_channel_positions,
      gst_audio_channel_positions_to_valid_order = lib_positions_to_valid_order,
      gst_audio_channel_positions_to_mask = lib_positions_to_mask,
      gst_audio_info_from_caps = lib_info_from_caps,
      gst_audio_info_set_format = lib_info_set_format,
      gst_audio_info_to_caps = lib_info_to_caps,
      gst_audio_buffer_reorder_channels = lib_buffer_reorder_channels\<rparr>"

text \<open>The memory of a new element, zero-filled by the object system before \<^verbatim>\<open>init\<close> runs.\<close>

definition zeroed_config :: GstDiscret11AudioParseConfig where
  "zeroed_config =
     \<lparr>ready = False, format = GST_DISCRET11_AUDIO_PARSE_FORMAT_PCM, pcm_format = 0, bpf = 0,
      sample_rate = 0, num_channels = 0, interleaved = False,
      channel_positions = replicate 64 0, reordered_channel_positions = replicate 64 0,
      needs_channel_reordering = False\<rparr>"

definition zeroed_element :: GstDiscret11AudioParse where
  "zeroed_element =
     \<lparr>src_caps_set = False, min_frame_size = 0, properties_config = zeroed_config,
      sink_caps_config = zeroed_config, current_config = None\<rparr>"

subsection \<open>Concrete elements and capabilities\<close>

text \<open>
  The configuration that \<^verbatim>\<open>init_config\<close> leaves with \<open>gst_audio_lib\<close>, the element after
  \<^verbatim>\<open>init\<close>, capabilities of a 16-bit stereo stream at 48 kHz with the configuration they
  convert to, and A-law capabilities that lack the \<^verbatim>\<open>channels\<close> field.
\<close>

definition default_config :: GstDiscret11AudioParseConfig where
  "default_config =
     \<lparr>ready = False, format = GST_DISCRET11_AUDIO_PARSE_FORMAT_PCM, pcm_format = 4, bpf = 0,
      sample_rate = 44100, num_channels = 2, interleaved = True,
      channel_positions = [0, 1] @ replicate 62 0, reordered_channel_positions = replicate 64 0,
      needs_channel_reordering = False\<rparr>"

definition started_element :: GstDiscret11AudioParse where
  "started_element =
     \<lparr>src_caps_set = False, min_frame_size = 0,
      properties_config = default_config\<lparr>ready := True, bpf := 4\<rparr>,
      sink_caps_config = default_config, current_config = Some properties_config_ptr\<rparr>"

definition stereo_raw_caps :: GstCaps where
  "stereo_raw_caps =
     [\<lparr>structure_name = ''audio/x-raw'',
       structure_fields = [(''format'', G_TYPE_STRING ''S16LE''),
                           (''layout'', G_TYPE_STRING ''interleaved''),
                           (''rate'', G_TYPE_INT 48000), (''channels'', G_TYPE_INT 2),
                           (''channel-mask'', GST_TYPE_BITMASK 3)]\<rparr>]"

definition negotiated_config :: GstDiscret11AudioParseConfig where
  "negotiated_config =
     \<lparr>ready = True, format = GST_DISCRET11_AUDIO_PARSE_FORMAT_PCM, pcm_format = 4, bpf = 4,
      sample_rate = 48000, num_channels = 2, interleaved = True,
      channel_positions = [0, 1] @ replicate 62 0, reordered_channel_positions = replicate 64 0,
      needs_channel_reordering = False\<rparr>"

definition alaw_caps_without_channels :: GstCaps where
  "alaw_caps_without_channels =
     [\<lparr>structure_name = ''audio/x-alaw'', structure_fields = [(''rate'', G_TYPE_INT 8000)]\<rparr>]"

text \<open>A-law capabilities of nine channels, for which the library has no fallback mask.\<close>

definition nine_channel_alaw_caps :: GstCaps where
  "nine_channel_alaw_caps =
     [\<lparr>structure_name = ''audio/x-alaw'',
       structure_fields = [(''rate'', G_TYPE_INT 8000), (''channels'', G_TYPE_INT 9)]\<rparr>]"


text \<open>The library's reordering works in place: the buffer keeps its size.\<close>

definition reorders_in_place :: "gst_audio \<Rightarrow> bool" where
  "reorders_in_place L \<longleftrightarrow>
     (\<forall>buf f n from to. length (snd (gst_audio_buffer_reorder_channels L buf f n from to)) = length buf)"

text \<open>
  The element after the property \<^verbatim>\<open>channel-positions\<close> is set to front right, front left on
  \<open>started_element\<close>.
\<close>

definition swapped_element :: GstDiscret11AudioParse where
  "swapped_element =
     started_element\<lparr>properties_config :=
       (properties_config started_element)
         \<lparr>channel_positions := [1, 0] @ replicate 62 0,
          reordered_channel_positions := [0, 1] @ replicate 62 0,
          needs_channel_reordering := True\<rparr>,
       min_frame_size := 4\<rparr>"


text \<open>
  The element after \<^verbatim>\<open>channel-positions\<close> is set to front centre, front right, front left
  on \<open>started_element\<close>, and the element after the property is then set to NULL.
\<close>

definition three_channel_element :: GstDiscret11AudioParse where
  "three_channel_element =
     started_element\<lparr>properties_config :=
       (properties_config started_element)
         \<lparr>num_channels := 3, bpf := 6,
          channel_positions := [2, 1, 0] @ replicate 61 0,
          reordered_channel_positions := [0, 1, 2] @ replicate 61 0,
          needs_channel_reordering := True\<rparr>,
       min_frame_size := 6\<rparr>"

definition restored_element :: GstDiscret11AudioParse where
  "restored_element =
     three_channel_element\<lparr>properties_config :=
       (properties_config three_channel_element)
         \<lparr>channel_positions := [0, 1, 3] @ replicate 61 0,
          needs_channel_reordering := False\<rparr>\<rparr>"

text \<open>
  A-law capabilities of a mono stream at 8 kHz without a channel mask, and the configuration
  they convert to from \<open>default_config\<close>.
\<close>

definition mono_alaw_caps :: GstCaps where
  "mono_alaw_caps =
     [\<lparr>structure_name = ''audio/x-alaw'',
       structure_fields = [(''rate'', G_TYPE_INT 8000), (''channels'', G_TYPE_INT 1)]\<rparr>]"

definition mono_alaw_config :: GstDiscret11AudioParseConfig where
  "mono_alaw_config =
     \<lparr>ready = True, format = GST_DISCRET11_AUDIO_PARSE_FORMAT_ALAW, pcm_format = 4, bpf = 1,
      sample_rate = 8000, num_channels = 1, interleaved = True,
      channel_positions = [- 2, 1] @ replicate 62 0, reordered_channel_positions = replicate 64 0,
      needs_channel_reordering = False\<rparr>"







text \<open>
  The element after \<^verbatim>\<open>channel-positions\<close> is set to nine positions in descending order on
  \<open>started_element\<close>. The library has no fallback mask for nine channels.
\<close>

definition nine_channel_element :: GstDiscret11AudioParse where
  "nine_channel_element =
     started_element\<lparr>properties_config :=
       (properties_config started_element)
         \<lparr>num_channels := 9, bpf := 18,
          channel_positions := [8, 7, 6, 5, 4, 3, 2, 1, 0] @ replicate 55 0,
          reordered_channel_positions := [0, 1, 2, 3, 4, 5, 6, 7, 8] @ replicate 55 0,
          needs_channel_reordering := True\<rparr>,
       min_frame_size := 18\<rparr>"

section \<open>What the code guarantees\<close>

lemma lib_positions_from_mask_stereo:
  "lib_positions_from_mask 2 3 (replicate 64 0) = (True, [0, 1] @ replicate 62 0)"
  by code_simp

lemma init_started:
  "gst_discret11_audio_parse_init gst_audio_lib zeroed_element = Inr started_element"
  by (simp add: gst_discret11_audio_parse_init_def gst_discret11_audio_parse_init_config_def
      gst_discret11_audio_parse_set_config_channels_def
      gst_discret11_audio_parse_update_config_bpf_def bind_result_def zeroed_element_def
      zeroed_config_def started_element_def default_config_def gst_audio_lib_def
      lib_fallback_mask_def lib_positions_from_mask_stereo lib_format_get_info_def
      lib_formats_def)

subsection \<open>Bytes per frame\<close>

lemma bpf_arith:
  fixes w n :: "32 word"
  assumes "8 dvd unat w" "unat w * unat n < 2 ^ 32"
  shows "unat (w * n div 8) = unat w div 8 * unat n"
proof -
  have "unat (w * n) = unat w * unat n"
    using assms(2) by (simp add: unat_word_ariths)
  then have "unat (w * n div 8) = unat w * unat n div 8"
    by (simp add: unat_div)
  also have "\<dots> = unat w div 8 * unat n"
    using assms(1) by (simp add: div_mult_swap mult.commute)
  finally show ?thesis .
qed

text \<open>
  C2. \<^verbatim>\<open>update_config_bpf\<close> changes the field \<open>bpf\<close> only. For PCM, when the sample width
  of the format is a whole number of bytes and width times channel count fits the 32-bit
  \<^verbatim>\<open>guint\<close>, the new bpf is (width / 8) * channel count; for A-law and mu-law it is
  1 * channel count.
\<close>

theorem update_config_bpf_value:
  "(format config = GST_DISCRET11_AUDIO_PARSE_FORMAT_PCM \<longrightarrow>
      gst_audio_format_get_info L (pcm_format config) = Some fmt_info \<longrightarrow>
      8 dvd unat (GST_AUDIO_FORMAT_INFO_WIDTH fmt_info) \<longrightarrow>
      unat (GST_AUDIO_FORMAT_INFO_WIDTH fmt_info) * unat (num_channels config) < 2 ^ 32 \<longrightarrow>
      (\<exists>c. gst_discret11_audio_parse_update_config_bpf L config = Inr c
           \<and> c = config\<lparr>bpf := bpf c\<rparr>
           \<and> unat (bpf c)
               = unat (GST_AUDIO_FORMAT_INFO_WIDTH fmt_info) div 8 * unat (num_channels config)))
   \<and> (format config \<noteq> GST_DISCRET11_AUDIO_PARSE_FORMAT_PCM \<longrightarrow>
      (\<exists>c. gst_discret11_audio_parse_update_config_bpf L config = Inr c
           \<and> c = config\<lparr>bpf := bpf c\<rparr>
           \<and> unat (bpf c) = 1 * unat (num_channels config)))"
  by (cases "format config")
     (simp_all add: gst_discret11_audio_parse_update_config_bpf_def bpf_arith)

theorem update_config_bpf_value_witness:
  "gst_discret11_audio_parse_update_config_bpf gst_audio_lib
     (zeroed_config\<lparr>pcm_format := 4, num_channels := 2\<rparr>)
   = Inr (zeroed_config\<lparr>pcm_format := 4, num_channels := 2, bpf := 4\<rparr>)
   \<and> gst_discret11_audio_parse_update_config_bpf gst_audio_lib
     (zeroed_config\<lparr>format := GST_DISCRET11_AUDIO_PARSE_FORMAT_ALAW, num_channels := 2\<rparr>)
   = Inr (zeroed_config\<lparr>format := GST_DISCRET11_AUDIO_PARSE_FORMAT_ALAW, num_channels := 2,
                        bpf := 2\<rparr>)"
proof -
  let ?c = "zeroed_config\<lparr>pcm_format := 4, num_channels := 2\<rparr>"
  let ?a = "zeroed_config\<lparr>format := GST_DISCRET11_AUDIO_PARSE_FORMAT_ALAW, num_channels := 2\<rparr>"
  have i: "gst_audio_format_get_info gst_audio_lib (pcm_format ?c)
             = Some \<lparr>GST_AUDIO_FORMAT_INFO_WIDTH = 16\<rparr>"
    by (simp add: gst_audio_lib_def lib_format_get_info_def lib_formats_def zeroed_config_def)
  have f: "format ?c = GST_DISCRET11_AUDIO_PARSE_FORMAT_PCM" by (simp add: zeroed_config_def)
  have g: "format ?a \<noteq> GST_DISCRET11_AUDIO_PARSE_FORMAT_PCM" by (simp add: zeroed_config_def)
  from update_config_bpf_value [of ?c gst_audio_lib "\<lparr>GST_AUDIO_FORMAT_INFO_WIDTH = 16\<rparr>"] f i
  obtain c where c: "gst_discret11_audio_parse_update_config_bpf gst_audio_lib ?c = Inr c"
    "c = ?c\<lparr>bpf := bpf c\<rparr>" "unat (bpf c) = 4"
    by auto
  from update_config_bpf_value [of ?a gst_audio_lib] g
  obtain a where a: "gst_discret11_audio_parse_update_config_bpf gst_audio_lib ?a = Inr a"
    "a = ?a\<lparr>bpf := bpf a\<rparr>" "unat (bpf a) = 2"
    by (auto simp: zeroed_config_def)
  have "bpf c = 4" using c(3) by (simp add: word_unat_eq_iff)
  moreover have "bpf a = 2" using a(3) by (simp add: word_unat_eq_iff)
  ultimately show ?thesis using c a by (simp add: zeroed_config_def)
qed

subsection \<open>From a configuration to capabilities\<close>

text \<open>
  C5. A configuration whose bpf is 0 is refused by \<^verbatim>\<open>config_to_caps\<close>: the function returns
  FALSE and \<^verbatim>\<open>*caps\<close> is NULL, whatever the other fields and the library are.
\<close>

theorem config_to_caps_zero_bpf:
  "bpf config = 0 \<Longrightarrow> gst_discret11_audio_parse_config_to_caps L config = (False, None)"
  by (simp add: gst_discret11_audio_parse_config_to_caps_def)

theorem config_to_caps_zero_bpf_witness:
  "bpf zeroed_config = 0
   \<and> gst_discret11_audio_parse_config_to_caps gst_audio_lib zeroed_config = (False, None)"
proof -
  have z: "bpf zeroed_config = 0" by (simp add: zeroed_config_def)
  from config_to_caps_zero_bpf [OF z] z show ?thesis by simp
qed

lemma get_caps_from_config_zero_bpf:
  assumes "gst_discret11_audio_parse_get_config_ptr s config = Inr p"
    and "bpf (deref s p) = 0"
  shows "gst_discret11_audio_parse_get_caps_from_config L s config = Inr (False, None)"
  using assms
  by (simp add: gst_discret11_audio_parse_get_caps_from_config_def bind_result_def
      gst_discret11_audio_parse_config_to_caps_def)


subsection \<open>The current configuration\<close>

text \<open>
  C3, as the code has it. \<^verbatim>\<open>get_current_config\<close> answers with the sink caps configuration
  exactly when the pointer \<^verbatim>\<open>current_config\<close> designates it, and with the properties
  configuration otherwise. The pointer is what \<^verbatim>\<open>set_current_config\<close> stored last; the
  contents of the two configurations, their ready flags included, have no part in the answer,
  and \<^verbatim>\<open>stop\<close>, which clears the ready flag of the sink caps configuration, leaves the
  answer as it was. The function reads the element and returns an identifier: it changes
  nothing.
\<close>

theorem get_current_config_follows_pointer:
  "(gst_discret11_audio_parse_get_current_config s = GST_DISCRET11_PARSE_CONFIG_SINKCAPS
      \<longleftrightarrow> current_config s = Some sink_caps_config_ptr)
   \<and> (gst_discret11_audio_parse_get_current_config s = GST_DISCRET11_PARSE_CONFIG_PROPERTIES
      \<longleftrightarrow> current_config s \<noteq> Some sink_caps_config_ptr)
   \<and> gst_discret11_audio_parse_get_current_config (s\<lparr>properties_config := pc, sink_caps_config := sc\<rparr>)
      = gst_discret11_audio_parse_get_current_config s
   \<and> gst_discret11_audio_parse_get_current_config (gst_discret11_audio_parse_stop s)
      = gst_discret11_audio_parse_get_current_config s
   \<and> gst_discret11_audio_parse_set_current_config s GST_DISCRET11_PARSE_CONFIG_SINKCAPS
      = Inr (True, s\<lparr>current_config := Some sink_caps_config_ptr\<rparr>)
   \<and> gst_discret11_audio_parse_set_current_config s GST_DISCRET11_PARSE_CONFIG_PROPERTIES
      = Inr (True, s\<lparr>current_config := Some properties_config_ptr\<rparr>)"
  by (simp add: gst_discret11_audio_parse_get_current_config_def
      gst_discret11_audio_parse_is_using_sink_caps_def gst_discret11_audio_parse_stop_def
      gst_discret11_audio_parse_set_current_config_def)

text \<open>
  C3 as the spec states it fails: on the element just initialised, once the sink caps
  configuration is made the current one, \<^verbatim>\<open>get_current_config\<close> answers SINKCAPS although
  that configuration is not ready.
\<close>

theorem get_current_config_ignores_ready:
  "gst_discret11_audio_parse_init gst_audio_lib zeroed_element = Inr started_element
   \<and> gst_discret11_audio_parse_set_current_config started_element GST_DISCRET11_PARSE_CONFIG_SINKCAPS
      = Inr (True, started_element\<lparr>current_config := Some sink_caps_config_ptr\<rparr>)
   \<and> gst_discret11_audio_parse_get_current_config
        (started_element\<lparr>current_config := Some sink_caps_config_ptr\<rparr>)
      = GST_DISCRET11_PARSE_CONFIG_SINKCAPS
   \<and> \<not> ready (sink_caps_config (started_element\<lparr>current_config := Some sink_caps_config_ptr\<rparr>))"
  by (simp add: init_started gst_discret11_audio_parse_get_current_config_def
      gst_discret11_audio_parse_is_using_sink_caps_def
      gst_discret11_audio_parse_set_current_config_def started_element_def default_config_def)

subsection \<open>Alignment\<close>

text \<open>
  \<^verbatim>\<open>get_alignment\<close> divides the width in bits by 8 first and rounds the number of bytes up
  to a multiple of 8 after that, so every PCM format of 8, 16, 24, 32 or 64 bits is given the
  alignment 8.
\<close>

lemma get_alignment_pcm_is_8:
  assumes "gst_discret11_audio_parse_get_config_ptr s config = Inr p"
    and "format (deref s p) = GST_DISCRET11_AUDIO_PARSE_FORMAT_PCM"
    and "gst_audio_format_get_info L (pcm_format (deref s p)) = Some fmt_info"
    and "GST_AUDIO_FORMAT_INFO_WIDTH fmt_info \<in> {8, 16, 24, 32, 64}"
  shows "gst_discret11_audio_parse_get_alignment L s config = Inr 8"
  using assms
  by (auto simp: gst_discret11_audio_parse_get_alignment_def bind_result_def gint_div_def
      GST_ROUND_UP_8_def round_up_pow2_def signed_divide_int_def)

lemma get_alignment_not_pcm:
  assumes "gst_discret11_audio_parse_get_config_ptr s config = Inr p"
    and "format (deref s p) \<noteq> GST_DISCRET11_AUDIO_PARSE_FORMAT_PCM"
  shows "gst_discret11_audio_parse_get_alignment L s config = Inr 1"
  using assms by (simp add: gst_discret11_audio_parse_get_alignment_def bind_result_def)

text \<open>
  C1 at the default configuration: the element just initialised holds 16-bit PCM samples, two
  bytes wide, and the alignment the code returns for it is 8, not 2, the smallest power of
  two that holds two bytes.
\<close>

theorem get_alignment_s16_is_8:
  "gst_discret11_audio_parse_init gst_audio_lib zeroed_element = Inr started_element
   \<and> format (properties_config started_element) = GST_DISCRET11_AUDIO_PARSE_FORMAT_PCM
   \<and> gst_audio_format_get_info gst_audio_lib (pcm_format (properties_config started_element))
      = Some \<lparr>GST_AUDIO_FORMAT_INFO_WIDTH = 16\<rparr>
   \<and> gst_discret11_audio_parse_get_alignment gst_audio_lib started_element
        GST_DISCRET11_PARSE_CONFIG_PROPERTIES = Inr 8"
  by (simp add: init_started) code_simp

subsection \<open>Ready and bpf\<close>

text \<open>
  \<^verbatim>\<open>stop\<close> clears the ready flag of the sink caps configuration and nothing else. Where the
  product of width and channel count does not wrap, \<^verbatim>\<open>update_config_bpf\<close> gives a bpf that
  is not 0.
\<close>

lemma update_config_bpf_nonzero:
  assumes u: "gst_discret11_audio_parse_update_config_bpf L config = Inr c"
    and n: "num_channels config \<noteq> 0"
    and w: "format config = GST_DISCRET11_AUDIO_PARSE_FORMAT_PCM \<Longrightarrow>
            \<exists>fmt_info. gst_audio_format_get_info L (pcm_format config) = Some fmt_info
              \<and> 8 dvd unat (GST_AUDIO_FORMAT_INFO_WIDTH fmt_info)
              \<and> GST_AUDIO_FORMAT_INFO_WIDTH fmt_info \<noteq> 0
              \<and> unat (GST_AUDIO_FORMAT_INFO_WIDTH fmt_info) * unat (num_channels config) < 2 ^ 32"
  shows "bpf c \<noteq> 0"
proof (cases "format config = GST_DISCRET11_AUDIO_PARSE_FORMAT_PCM")
  case True
  from w [OF True] obtain fmt_info where
    i: "gst_audio_format_get_info L (pcm_format config) = Some fmt_info"
    and d: "8 dvd unat (GST_AUDIO_FORMAT_INFO_WIDTH fmt_info)"
    and z: "GST_AUDIO_FORMAT_INFO_WIDTH fmt_info \<noteq> 0"
    and o: "unat (GST_AUDIO_FORMAT_INFO_WIDTH fmt_info) * unat (num_channels config) < 2 ^ 32"
    by blast
  from u True i have b: "bpf c = GST_AUDIO_FORMAT_INFO_WIDTH fmt_info * num_channels config div 8"
    by (auto simp: gst_discret11_audio_parse_update_config_bpf_def)
  from z have "0 < unat (GST_AUDIO_FORMAT_INFO_WIDTH fmt_info)" by (simp add: unat_gt_0)
  with d have "8 \<le> unat (GST_AUDIO_FORMAT_INFO_WIDTH fmt_info)" by (auto elim: dvdE)
  then have "0 < unat (GST_AUDIO_FORMAT_INFO_WIDTH fmt_info) div 8" by simp
  moreover from n have "0 < unat (num_channels config)" by (simp add: unat_gt_0)
  ultimately have "0 < unat (bpf c)" using bpf_arith [OF d o] b by simp
  then show ?thesis by (simp add: unat_gt_0)
next
  case False
  with u n show ?thesis
    by (cases "format config")
       (auto simp: gst_discret11_audio_parse_update_config_bpf_def)
qed

lemma stop_clears_ready:
  "\<not> ready (sink_caps_config (gst_discret11_audio_parse_stop s))
   \<and> bpf (sink_caps_config (gst_discret11_audio_parse_stop s)) = bpf (sink_caps_config s)
   \<and> properties_config (gst_discret11_audio_parse_stop s) = properties_config s
   \<and> current_config (gst_discret11_audio_parse_stop s) = current_config s"
  by (simp add: gst_discret11_audio_parse_stop_def)

text \<open>
  C9 at the property \<^verbatim>\<open>num-channels\<close>: its range is 1 to \<^verbatim>\<open>INT_MAX\<close>, and on the element
  just initialised the value 536870912 makes 16 * 536870912 wrap to 0 in \<^verbatim>\<open>guint\<close>, so the
  properties configuration is left ready with a bpf of 0.
\<close>

theorem num_channels_overflow_zero_bpf:
  "gst_discret11_audio_parse_init gst_audio_lib zeroed_element = Inr started_element
   \<and> ready (properties_config started_element)
   \<and> gst_discret11_audio_parse_set_property gst_audio_lib started_element
        (PROP_NUM_CHANNELS 536870912)
      = Inr (started_element\<lparr>properties_config :=
               (properties_config started_element)\<lparr>num_channels := 536870912, bpf := 0\<rparr>\<rparr>)
   \<and> ready ((properties_config started_element)\<lparr>num_channels := 536870912, bpf := 0\<rparr>)
   \<and> bpf ((properties_config started_element)\<lparr>num_channels := 536870912, bpf := 0\<rparr>) = 0"
  by (simp add: init_started) code_simp

text \<open>
  The overflow is not the only way to a bpf of 0: the format \<^verbatim>\<open>UNKNOWN\<close>, which the
  property \<^verbatim>\<open>pcm-format\<close> accepts, has a width of 0 bits.
\<close>

lemma pcm_format_unknown_zero_bpf:
  "gst_discret11_audio_parse_set_property gst_audio_lib started_element (PROP_PCM_FORMAT 0)
     = Inr (started_element\<lparr>properties_config :=
              (properties_config started_element)\<lparr>pcm_format := 0, bpf := 0\<rparr>\<rparr>)"
  by code_simp

subsection \<open>From capabilities to a configuration\<close>

lemma set_config_channels_cases:
  "gst_discret11_audio_parse_set_config_channels L config n m sp = Inr r \<Longrightarrow>
     n \<noteq> 0 \<and> ready (snd r) = ready config \<and> format (snd r) = format config
     \<and> pcm_format (snd r) = pcm_format config \<and> bpf (snd r) = bpf config
     \<and> sample_rate (snd r) = sample_rate config \<and> interleaved (snd r) = interleaved config
     \<and> reordered_channel_positions (snd r) = reordered_channel_positions config
     \<and> num_channels (snd r) = n \<and> \<not> needs_channel_reordering (snd r)
     \<and> (\<not> sp \<longrightarrow> fst r \<and> channel_positions (snd r) = channel_positions config)"
  by (auto simp: gst_discret11_audio_parse_set_config_channels_def Let_def split: if_splits)

text \<open>
  Every cause of failure ends in FALSE, with the configuration as the function has written it
  up to there: untouched for a media type that is not supported and for raw capabilities that
  the library cannot parse; with the new format when \<^verbatim>\<open>rate\<close> is missing; with the new format
  and rate when \<^verbatim>\<open>channels\<close> is missing; with the new format, rate and channel count, a
  cleared reordering flag and what the library wrote to the positions when the channel mask
  cannot be used.
\<close>

lemma caps_to_config_unsupported:
  assumes "\<not> gst_structure_has_name (gst_caps_get_structure caps 0) ''audio/x-raw''"
    and "\<not> gst_structure_has_name (gst_caps_get_structure caps 0) ''audio/x-unaligned-raw''"
    and "\<not> gst_structure_has_name (gst_caps_get_structure caps 0) ''audio/x-alaw''"
    and "\<not> gst_structure_has_name (gst_caps_get_structure caps 0) ''audio/x-mulaw''"
  shows "gst_discret11_audio_parse_caps_to_config L caps config = Inr (False, config)"
  using assms by (simp add: gst_discret11_audio_parse_caps_to_config_def)

lemma has_name_set_name:
  "gst_structure_has_name (gst_caps_get_structure caps 0) a \<Longrightarrow>
     gst_structure_has_name (gst_caps_get_structure (gst_structure_set_name caps b) 0) c
       \<longleftrightarrow> b = c"
  by (cases caps)
     (auto simp: gst_structure_has_name_def gst_caps_get_structure_def gst_structure_set_name_def)

lemma caps_to_config_unparseable:
  assumes "gst_structure_has_name (gst_caps_get_structure caps 0) ''audio/x-raw''
           \<or> gst_structure_has_name (gst_caps_get_structure caps 0) ''audio/x-unaligned-raw''"
    and "gst_audio_info_from_caps L
           (if gst_structure_has_name (gst_caps_get_structure caps 0) ''audio/x-unaligned-raw''
            then gst_structure_set_name caps ''audio/x-raw'' else caps) = None"
  shows "gst_discret11_audio_parse_caps_to_config L caps config = Inr (False, config)"
  using assms
  by (auto simp: gst_discret11_audio_parse_caps_to_config_def Let_def has_name_set_name)

lemma caps_to_config_missing_rate:
  assumes "\<not> gst_structure_has_name (gst_caps_get_structure caps 0) ''audio/x-raw''"
    and "\<not> gst_structure_has_name (gst_caps_get_structure caps 0) ''audio/x-unaligned-raw''"
    and "gst_structure_has_name (gst_caps_get_structure caps 0) ''audio/x-alaw''
         \<or> gst_structure_has_name (gst_caps_get_structure caps 0) ''audio/x-mulaw''"
    and "gst_structure_get_int (gst_caps_get_structure caps 0) ''rate'' = None"
  shows "gst_discret11_audio_parse_caps_to_config L caps config
         = Inr (False, config\<lparr>format :=
                  (if gst_structure_has_name (gst_caps_get_structure caps 0) ''audio/x-alaw''
                   then GST_DISCRET11_AUDIO_PARSE_FORMAT_ALAW
                   else GST_DISCRET11_AUDIO_PARSE_FORMAT_MULAW)\<rparr>)"
  using assms by (auto simp: gst_discret11_audio_parse_caps_to_config_def Let_def)

lemma caps_to_config_missing_channels:
  assumes "\<not> gst_structure_has_name (gst_caps_get_structure caps 0) ''audio/x-raw''"
    and "\<not> gst_structure_has_name (gst_caps_get_structure caps 0) ''audio/x-unaligned-raw''"
    and "gst_structure_has_name (gst_caps_get_structure caps 0) ''audio/x-alaw''
         \<or> gst_structure_has_name (gst_caps_get_structure caps 0) ''audio/x-mulaw''"
    and "gst_structure_get_int (gst_caps_get_structure caps 0) ''rate'' = Some rate"
    and "gst_structure_get_int (gst_caps_get_structure caps 0) ''channels'' = None"
  shows "gst_discret11_audio_parse_caps_to_config L caps config
         = Inr (False, config\<lparr>format :=
                  (if gst_structure_has_name (gst_caps_get_structure caps 0) ''audio/x-alaw''
                   then GST_DISCRET11_AUDIO_PARSE_FORMAT_ALAW
                   else GST_DISCRET11_AUDIO_PARSE_FORMAT_MULAW),
                  sample_rate := rate\<rparr>)"
  using assms by (auto simp: gst_discret11_audio_parse_caps_to_config_def Let_def)

lemma caps_to_config_unusable_mask:
  assumes "\<not> gst_structure_has_name (gst_caps_get_structure caps 0) ''audio/x-raw''"
    and "\<not> gst_structure_has_name (gst_caps_get_structure caps 0) ''audio/x-unaligned-raw''"
    and "gst_structure_has_name (gst_caps_get_structure caps 0) ''audio/x-alaw''
         \<or> gst_structure_has_name (gst_caps_get_structure caps 0) ''audio/x-mulaw''"
    and "gst_structure_get_int (gst_caps_get_structure caps 0) ''rate'' = Some rate"
    and "gst_structure_get_int (gst_caps_get_structure caps 0) ''channels'' = Some n"
    and "n \<noteq> 0"
    and "m = (case gst_structure_get_bitmask (gst_caps_get_structure caps 0) ''channel-mask'' of
                None \<Rightarrow> gst_audio_channel_get_fallback_mask L n | Some m \<Rightarrow> m)"
    and "\<not> fst (gst_audio_channel_positions_from_mask L n
                  (if m = 0 then gst_audio_channel_get_fallback_mask L n else m)
                  (channel_positions config))"
  shows "gst_discret11_audio_parse_caps_to_config L caps config
         = Inr (False, config\<lparr>format :=
                  (if gst_structure_has_name (gst_caps_get_structure caps 0) ''audio/x-alaw''
                   then GST_DISCRET11_AUDIO_PARSE_FORMAT_ALAW
                   else GST_DISCRET11_AUDIO_PARSE_FORMAT_MULAW),
                  sample_rate := rate,
                  num_channels := n,
                  needs_channel_reordering := False,
                  channel_positions :=
                    snd (gst_audio_channel_positions_from_mask L n
                           (if m = 0 then gst_audio_channel_get_fallback_mask L n else m)
                           (channel_positions config))\<rparr>)"
  using assms
  by (auto simp: gst_discret11_audio_parse_caps_to_config_def Let_def bind_result_def
      gst_discret11_audio_parse_set_config_channels_def)

text \<open>
  The other way round: when \<^verbatim>\<open>caps_to_config\<close> returns FALSE, the ready flag of the
  configuration is what it was before the call, and so are \<open>pcm_format\<close>, \<open>bpf\<close>,
  \<open>interleaved\<close> and the reordered positions; when the media type is neither A-law nor
  mu-law, the whole configuration is unchanged.
\<close>

lemma caps_to_config_failure:
  assumes "gst_discret11_audio_parse_caps_to_config L caps config = Inr (False, config')"
  shows "ready config' = ready config
     \<and> pcm_format config' = pcm_format config
     \<and> bpf config' = bpf config
     \<and> interleaved config' = interleaved config
     \<and> reordered_channel_positions config' = reordered_channel_positions config
     \<and> (\<not> gst_structure_has_name (gst_caps_get_structure caps 0) ''audio/x-alaw'' \<longrightarrow>
        \<not> gst_structure_has_name (gst_caps_get_structure caps 0) ''audio/x-mulaw'' \<longrightarrow>
        config' = config)"
  using assms
  by (auto simp: gst_discret11_audio_parse_caps_to_config_def Let_def bind_result_def
      gst_structure_has_name_def gst_caps_get_structure_def gst_structure_set_name_def
      dest!: set_config_channels_cases
      split: if_splits option.splits sum.splits list.splits)

text \<open>
  C4 on a configuration that is ready. The stereo capabilities make the configuration ready.
  A-law capabilities of nine channels, for which the library has no positions, are then
  refused, and so are A-law capabilities without \<^verbatim>\<open>channels\<close>; both times FALSE is returned,
  but the configuration that is left is still ready, and its format is A-law and its rate
  8000 next to the bpf of the PCM stream: it is neither unmodified nor unready, where the raw
  branch and the branch of media types that are not supported leave it untouched.
\<close>

theorem caps_to_config_partial_overwrite:
  "gst_discret11_audio_parse_caps_to_config gst_audio_lib stereo_raw_caps default_config
     = Inr (True, negotiated_config)
   \<and> ready negotiated_config
   \<and> gst_discret11_audio_parse_caps_to_config gst_audio_lib nine_channel_alaw_caps
       negotiated_config
     = Inr (False, negotiated_config\<lparr>format := GST_DISCRET11_AUDIO_PARSE_FORMAT_ALAW,
                                      sample_rate := 8000, num_channels := 9\<rparr>)
   \<and> ready (negotiated_config\<lparr>format := GST_DISCRET11_AUDIO_PARSE_FORMAT_ALAW,
                               sample_rate := 8000, num_channels := 9\<rparr>)
   \<and> bpf (negotiated_config\<lparr>format := GST_DISCRET11_AUDIO_PARSE_FORMAT_ALAW,
                             sample_rate := 8000, num_channels := 9\<rparr>) = 4
   \<and> gst_discret11_audio_parse_caps_to_config gst_audio_lib alaw_caps_without_channels
       negotiated_config
     = Inr (False, negotiated_config\<lparr>format := GST_DISCRET11_AUDIO_PARSE_FORMAT_ALAW,
                                      sample_rate := 8000\<rparr>)
   \<and> ready (negotiated_config\<lparr>format := GST_DISCRET11_AUDIO_PARSE_FORMAT_ALAW,
                               sample_rate := 8000\<rparr>)
   \<and> gst_discret11_audio_parse_caps_to_config gst_audio_lib [] negotiated_config
     = Inr (False, negotiated_config)"
  by code_simp

subsection \<open>The layout that is published\<close>

lemma reorders_in_place_lib: "reorders_in_place gst_audio_lib"
  by (simp add: reorders_in_place_def gst_audio_lib_def lib_buffer_reorder_channels_def Let_def)

lemma set_property_swapped:
  "gst_discret11_audio_parse_set_property gst_audio_lib started_element
     (PROP_CHANNEL_POSITIONS (Some [1, 0])) = Inr swapped_element"
  by code_simp





subsection \<open>Processing a buffer\<close>

text \<open>
  C7. With \<open>num_valid_in_bytes\<close> inside the input buffer, \<^verbatim>\<open>process\<close> returns TRUE and a new
  buffer exactly when the format is PCM and \<open>needs_channel_reordering\<close> is set: the buffer is
  the first \<open>num_valid_in_bytes\<close> bytes of the input, handed to the library to be reordered in
  place from \<open>channel_positions\<close> to the reordered positions, so it has \<open>num_valid_in_bytes\<close>
  bytes. In every other case the processed buffer is NULL. The function returns no
  configuration: it reads the one it is given and writes none of its fields.
\<close>

theorem process_reorders_pcm_only:
  assumes "gst_discret11_audio_parse_get_config_ptr s config = Inr p"
    and "num_valid_in_bytes \<le> length in_data"
  shows "(format (deref s p) = GST_DISCRET11_AUDIO_PARSE_FORMAT_PCM
            \<and> needs_channel_reordering (deref s p) \<longrightarrow>
          gst_discret11_audio_parse_process L s config in_data total_num_in_bytes num_valid_in_bytes
            = Inr (True, Some (snd (gst_audio_buffer_reorder_channels L
                                      (take num_valid_in_bytes in_data)
                                      (pcm_format (deref s p)) (num_channels (deref s p))
                                      (channel_positions (deref s p))
                                      (reordered_channel_positions (deref s p)))))
          \<and> length (take num_valid_in_bytes in_data) = num_valid_in_bytes)
     \<and> (\<not> (format (deref s p) = GST_DISCRET11_AUDIO_PARSE_FORMAT_PCM
              \<and> needs_channel_reordering (deref s p)) \<longrightarrow>
          gst_discret11_audio_parse_process L s config in_data total_num_in_bytes num_valid_in_bytes
            = Inr (True, None))
     \<and> (reorders_in_place L \<longrightarrow>
          (\<forall>out. gst_discret11_audio_parse_process L s config in_data total_num_in_bytes
                    num_valid_in_bytes = Inr (True, Some out)
                 \<longrightarrow> length out = num_valid_in_bytes))"
  using assms
  by (auto simp: gst_discret11_audio_parse_process_def bind_result_def Let_def
      gst_buffer_copy_region_def reorders_in_place_def)

theorem process_reorders_pcm_only_witness:
  "gst_discret11_audio_parse_process gst_audio_lib swapped_element
     GST_DISCRET11_PARSE_CONFIG_PROPERTIES [1, 2, 3, 4, 5, 6, 7, 8, 9, 10] 10 8
     = Inr (True, Some [3, 4, 1, 2, 7, 8, 5, 6])
   \<and> gst_discret11_audio_parse_process gst_audio_lib started_element
     GST_DISCRET11_PARSE_CONFIG_PROPERTIES [1, 2, 3, 4, 5, 6, 7, 8, 9, 10] 10 8
     = Inr (True, None)
   \<and> gst_discret11_audio_parse_process gst_audio_lib
       (swapped_element\<lparr>properties_config :=
          (properties_config swapped_element)\<lparr>format := GST_DISCRET11_AUDIO_PARSE_FORMAT_ALAW\<rparr>\<rparr>)
       GST_DISCRET11_PARSE_CONFIG_PROPERTIES [1, 2, 3, 4, 5, 6, 7, 8, 9, 10] 10 8
     = Inr (True, None)"
proof -
  let ?in = "[1, 2, 3, 4, 5, 6, 7, 8, 9, 10] :: GstBuffer"
  let ?alaw = "swapped_element\<lparr>properties_config :=
          (properties_config swapped_element)\<lparr>format := GST_DISCRET11_AUDIO_PARSE_FORMAT_ALAW\<rparr>\<rparr>"
  have p: "gst_discret11_audio_parse_get_config_ptr swapped_element
             GST_DISCRET11_PARSE_CONFIG_PROPERTIES = Inr properties_config_ptr"
    "gst_discret11_audio_parse_get_config_ptr started_element
             GST_DISCRET11_PARSE_CONFIG_PROPERTIES = Inr properties_config_ptr"
    "gst_discret11_audio_parse_get_config_ptr ?alaw
             GST_DISCRET11_PARSE_CONFIG_PROPERTIES = Inr properties_config_ptr"
    by (simp_all add: gst_discret11_audio_parse_get_config_ptr_def swapped_element_def
        started_element_def)
  have l: "(8::nat) \<le> length ?in" by simp
  have f: "format (deref swapped_element properties_config_ptr) = GST_DISCRET11_AUDIO_PARSE_FORMAT_PCM
           \<and> needs_channel_reordering (deref swapped_element properties_config_ptr)"
    "\<not> (format (deref started_element properties_config_ptr) = GST_DISCRET11_AUDIO_PARSE_FORMAT_PCM
           \<and> needs_channel_reordering (deref started_element properties_config_ptr))"
    "\<not> (format (deref ?alaw properties_config_ptr) = GST_DISCRET11_AUDIO_PARSE_FORMAT_PCM
           \<and> needs_channel_reordering (deref ?alaw properties_config_ptr))"
    by (simp_all add: deref_def swapped_element_def started_element_def default_config_def)
  have r: "snd (gst_audio_buffer_reorder_channels gst_audio_lib (take 8 ?in)
             (pcm_format (deref swapped_element properties_config_ptr))
             (num_channels (deref swapped_element properties_config_ptr))
             (channel_positions (deref swapped_element properties_config_ptr))
             (reordered_channel_positions (deref swapped_element properties_config_ptr)))
           = [3, 4, 1, 2, 7, 8, 5, 6]"
    by code_simp
  from process_reorders_pcm_only [OF p(1) l, of gst_audio_lib 10]
       process_reorders_pcm_only [OF p(2) l, of gst_audio_lib 10]
       process_reorders_pcm_only [OF p(3) l, of gst_audio_lib 10] f r reorders_in_place_lib
  show ?thesis by simp
qed

subsection \<open>The property channel-positions\<close>

lemma update_flag_cases:
  "gst_discret11_audio_parse_update_channel_reordering_flag L config = Inr r \<Longrightarrow>
     num_channels (snd r) = num_channels config
     \<and> channel_positions (snd r) = channel_positions config
     \<and> format (snd r) = format config \<and> pcm_format (snd r) = pcm_format config
     \<and> ready (snd r) = ready config \<and> sample_rate (snd r) = sample_rate config
     \<and> interleaved (snd r) = interleaved config
     \<and> (needs_channel_reordering (snd r) \<longleftrightarrow>
          \<not> gst_audio_check_valid_channel_positions L (channel_positions config)
               (num_channels config) True)"
  by (auto simp: gst_discret11_audio_parse_update_channel_reordering_flag_def Let_def
      bind_result_def memcpy_positions_def split: if_splits)

lemma update_bpf_cases:
  "gst_discret11_audio_parse_update_config_bpf L config = Inr c \<Longrightarrow>
     c = config\<lparr>bpf := bpf c\<rparr> \<and> gst_discret11_audio_parse_update_config_bpf L c = Inr c"
  by (cases "format config")
     (auto simp: gst_discret11_audio_parse_update_config_bpf_def split: option.splits)

lemma properties_config_invalidate_and_resize [simp]:
  "properties_config (invalidate_and_resize s) = properties_config s"
  by (simp add: invalidate_and_resize_def gst_base_parse_set_min_frame_size_def
      gst_discret11_parse_invalidate_src_caps_def)

lemma unat_of_nat_length:
  "length (vals :: 'a list) < 2 ^ 32 \<Longrightarrow> unat (word_of_nat (length vals) :: 32 word) = length vals"
  by (simp add: unsigned_of_nat take_bit_nat_eq_self)

text \<open>
  What the branch does when the array fits. Setting \<^verbatim>\<open>channel-positions\<close> to an array that
  is not empty, has at most as many values as \<open>channel_positions\<close> has entries and differs in
  length from \<open>num_channels\<close>: the channel count becomes the array's length, the array is
  copied to the front of \<open>channel_positions\<close>, and the reordering flag and then bpf are
  computed anew from that configuration. An empty array leaves the element as it is. NULL,
  with a channel count that is not 0, writes whatever the library writes for its fallback
  mask of the current channel count, clears the reordering flag and computes bpf anew.
\<close>

lemma set_property_channel_positions:
  "(vals \<noteq> [] \<longrightarrow> word_of_nat (length vals) \<noteq> num_channels (properties_config s) \<longrightarrow>
    length vals < 2 ^ 32 \<longrightarrow> length vals \<le> length (channel_positions (properties_config s)) \<longrightarrow>
      gst_discret11_audio_parse_set_property L s (PROP_CHANNEL_POSITIONS (Some vals))
        = bind_result
            (gst_discret11_audio_parse_update_channel_reordering_flag L
               ((properties_config s)
                  \<lparr>num_channels := word_of_nat (length vals),
                   needs_channel_reordering := False,
                   channel_positions := vals @ drop (length vals) (channel_positions (properties_config s))\<rparr>))
            (\<lambda>r. bind_result (gst_discret11_audio_parse_update_config_bpf L (snd r))
               (\<lambda>c. Inr (invalidate_and_resize (s\<lparr>properties_config := c\<rparr>))))
      \<and> (\<forall>s'. gst_discret11_audio_parse_set_property L s (PROP_CHANNEL_POSITIONS (Some vals)) = Inr s'
            \<longrightarrow> num_channels (properties_config s') = word_of_nat (length vals)
              \<and> take (length vals) (channel_positions (properties_config s')) = vals
              \<and> (needs_channel_reordering (properties_config s') \<longleftrightarrow>
                   \<not> gst_audio_check_valid_channel_positions L
                        (channel_positions (properties_config s'))
                        (num_channels (properties_config s')) True)
              \<and> gst_discret11_audio_parse_update_config_bpf L (properties_config s')
                   = Inr (properties_config s')))
   \<and> gst_discret11_audio_parse_set_property L s (PROP_CHANNEL_POSITIONS (Some [])) = Inr s
   \<and> (num_channels (properties_config s) \<noteq> 0 \<longrightarrow>
      gst_discret11_audio_parse_set_property L s (PROP_CHANNEL_POSITIONS None)
        = bind_result
            (gst_discret11_audio_parse_update_config_bpf L
               ((properties_config s)
                  \<lparr>needs_channel_reordering := False,
                   channel_positions :=
                     snd (gst_audio_channel_positions_from_mask L (num_channels (properties_config s))
                            (gst_audio_channel_get_fallback_mask L (num_channels (properties_config s)))
                            (channel_positions (properties_config s)))\<rparr>))
            (\<lambda>c. Inr (invalidate_and_resize (s\<lparr>properties_config := c\<rparr>))))"
proof -
  let ?cfg = "properties_config s"
  let ?n = "word_of_nat (length vals) :: guint"
  let ?c1 = "?cfg\<lparr>num_channels := ?n, needs_channel_reordering := False,
                   channel_positions := vals @ drop (length vals) (channel_positions ?cfg)\<rparr>"
  let ?rhs = "bind_result (gst_discret11_audio_parse_update_channel_reordering_flag L ?c1)
            (\<lambda>r. bind_result (gst_discret11_audio_parse_update_config_bpf L (snd r))
               (\<lambda>c. Inr (invalidate_and_resize (s\<lparr>properties_config := c\<rparr>))))"
  have eq: "gst_discret11_audio_parse_set_property L s (PROP_CHANNEL_POSITIONS (Some vals)) = ?rhs"
    if h: "vals \<noteq> []" "?n \<noteq> num_channels ?cfg" "length vals < 2 ^ 32"
       "length vals \<le> length (channel_positions ?cfg)"
  proof -
    have n0: "?n \<noteq> 0"
      using h(1,3) unat_of_nat_length [OF h(3)] by (metis length_0_conv unat_0)
    show ?thesis
      using h n0 unat_of_nat_length [OF h(3)]
      by (simp add: gst_discret11_audio_parse_set_property_def Let_def bind_result_def
          gst_discret11_audio_parse_set_config_channels_def copy_valarray_def memcpy_positions_def
          split: sum.splits)
  qed
  have post: "num_channels (properties_config s') = ?n
              \<and> take (length vals) (channel_positions (properties_config s')) = vals
              \<and> (needs_channel_reordering (properties_config s') \<longleftrightarrow>
                   \<not> gst_audio_check_valid_channel_positions L
                        (channel_positions (properties_config s'))
                        (num_channels (properties_config s')) True)
              \<and> gst_discret11_audio_parse_update_config_bpf L (properties_config s')
                   = Inr (properties_config s')"
    if h: "vals \<noteq> []" "?n \<noteq> num_channels ?cfg" "length vals < 2 ^ 32"
       "length vals \<le> length (channel_positions ?cfg)"
      and r: "gst_discret11_audio_parse_set_property L s (PROP_CHANNEL_POSITIONS (Some vals)) = Inr s'"
    for s'
  proof -
    from eq [OF h] r have "?rhs = Inr s'" by simp
    then obtain r1 c where
      r1: "gst_discret11_audio_parse_update_channel_reordering_flag L ?c1 = Inr r1"
      and c: "gst_discret11_audio_parse_update_config_bpf L (snd r1) = Inr c"
      and s': "s' = invalidate_and_resize (s\<lparr>properties_config := c\<rparr>)"
      by (auto simp: bind_result_def split: sum.splits)
    from update_flag_cases [OF r1] update_bpf_cases [OF c] s'
    have pc: "properties_config s' = c" "c = (snd r1)\<lparr>bpf := bpf c\<rparr>"
      "gst_discret11_audio_parse_update_config_bpf L c = Inr c"
      "num_channels (snd r1) = ?n"
      "channel_positions (snd r1) = vals @ drop (length vals) (channel_positions ?cfg)"
      "needs_channel_reordering (snd r1) \<longleftrightarrow>
          \<not> gst_audio_check_valid_channel_positions L
               (vals @ drop (length vals) (channel_positions ?cfg)) ?n True"
      by simp_all
    have "num_channels c = ?n"
      "channel_positions c = vals @ drop (length vals) (channel_positions ?cfg)"
      "needs_channel_reordering c = needs_channel_reordering (snd r1)"
      using pc(2,4,5) by (metis GstDiscret11AudioParseConfig.select_convs
          GstDiscret11AudioParseConfig.surjective GstDiscret11AudioParseConfig.update_convs)+
    with pc show ?thesis by simp
  qed
  have empty: "gst_discret11_audio_parse_set_property L s (PROP_CHANNEL_POSITIONS (Some [])) = Inr s"
    by (simp add: gst_discret11_audio_parse_set_property_def)
  have null: "gst_discret11_audio_parse_set_property L s (PROP_CHANNEL_POSITIONS None)
        = bind_result
            (gst_discret11_audio_parse_update_config_bpf L
               (?cfg\<lparr>needs_channel_reordering := False,
                   channel_positions :=
                     snd (gst_audio_channel_positions_from_mask L (num_channels ?cfg)
                            (gst_audio_channel_get_fallback_mask L (num_channels ?cfg))
                            (channel_positions ?cfg))\<rparr>))
            (\<lambda>c. Inr (invalidate_and_resize (s\<lparr>properties_config := c\<rparr>)))"
    if "num_channels ?cfg \<noteq> 0"
    using that
    by (simp add: gst_discret11_audio_parse_set_property_def Let_def bind_result_def
        gst_discret11_audio_parse_set_config_channels_def)
  show ?thesis
  proof (intro conjI impI allI)
    assume "vals \<noteq> []" "?n \<noteq> num_channels ?cfg" "length vals < 2 ^ 32"
      "length vals \<le> length (channel_positions ?cfg)"
    then show "gst_discret11_audio_parse_set_property L s (PROP_CHANNEL_POSITIONS (Some vals)) = ?rhs"
      by (rule eq)
  qed (use post empty null in blast)+
qed

lemma set_property_channel_positions_fits:
  "gst_discret11_audio_parse_set_property gst_audio_lib started_element
     (PROP_CHANNEL_POSITIONS (Some [2, 1, 0])) = Inr three_channel_element
   \<and> num_channels (properties_config three_channel_element) = 3
   \<and> take 3 (channel_positions (properties_config three_channel_element)) = [2, 1, 0]
   \<and> needs_channel_reordering (properties_config three_channel_element)
   \<and> bpf (properties_config three_channel_element) = 6
   \<and> gst_discret11_audio_parse_set_property gst_audio_lib started_element
       (PROP_CHANNEL_POSITIONS (Some [])) = Inr started_element
   \<and> gst_discret11_audio_parse_set_property gst_audio_lib three_channel_element
       (PROP_CHANNEL_POSITIONS None) = Inr restored_element"
proof -
  have a: "gst_discret11_audio_parse_set_property gst_audio_lib started_element
             (PROP_CHANNEL_POSITIONS (Some [2, 1, 0])) = Inr three_channel_element"
    by code_simp
  have h: "[2, 1, 0 :: GstAudioChannelPosition] \<noteq> []"
    "word_of_nat (length [2, 1, 0 :: GstAudioChannelPosition])
       \<noteq> num_channels (properties_config started_element)"
    "length [2, 1, 0 :: GstAudioChannelPosition] < 2 ^ 32"
    "length [2, 1, 0 :: GstAudioChannelPosition]
       \<le> length (channel_positions (properties_config started_element))"
    "num_channels (properties_config three_channel_element) \<noteq> 0"
    by (simp_all add: started_element_def default_config_def three_channel_element_def)
  have b: "bpf (properties_config three_channel_element) = 6"
    by (simp add: three_channel_element_def)
  have n: "bind_result
            (gst_discret11_audio_parse_update_config_bpf gst_audio_lib
               ((properties_config three_channel_element)
                  \<lparr>needs_channel_reordering := False,
                   channel_positions :=
                     snd (gst_audio_channel_positions_from_mask gst_audio_lib
                            (num_channels (properties_config three_channel_element))
                            (gst_audio_channel_get_fallback_mask gst_audio_lib
                               (num_channels (properties_config three_channel_element)))
                            (channel_positions (properties_config three_channel_element)))\<rparr>))
            (\<lambda>c. Inr (invalidate_and_resize (three_channel_element\<lparr>properties_config := c\<rparr>)))
           = Inr restored_element"
    by code_simp
  from set_property_channel_positions [of "[2, 1, 0]" started_element gst_audio_lib] h a
  have "num_channels (properties_config three_channel_element) = 3
        \<and> take 3 (channel_positions (properties_config three_channel_element)) = [2, 1, 0]
        \<and> needs_channel_reordering (properties_config three_channel_element)
        \<and> gst_discret11_audio_parse_set_property gst_audio_lib started_element
            (PROP_CHANNEL_POSITIONS (Some [])) = Inr started_element"
    by (simp add: three_channel_element_def)
  moreover from set_property_channel_positions [of "[]" three_channel_element gst_audio_lib] h(5) n
  have "gst_discret11_audio_parse_set_property gst_audio_lib three_channel_element
       (PROP_CHANNEL_POSITIONS None) = Inr restored_element"
    by simp
  ultimately show ?thesis using a b by simp
qed

text \<open>
  The array that does not fit needs nothing of the library: an array of more values than
  \<open>channel_positions\<close> has entries, and of another length than the channel count, is written
  past the end of \<open>channel_positions\<close>.
\<close>

lemma set_property_channel_positions_too_long:
  assumes "length (channel_positions (properties_config s)) < length vals"
    and "length vals < 2 ^ 32"
    and "word_of_nat (length vals) \<noteq> num_channels (properties_config s)"
  shows "gst_discret11_audio_parse_set_property L s (PROP_CHANNEL_POSITIONS (Some vals))
         = Inl OutOfBounds"
proof -
  have n: "unat (word_of_nat (length vals) :: guint) = length vals"
    using assms(2) by (rule unat_of_nat_length)
  with assms(1) have "(word_of_nat (length vals) :: guint) \<noteq> 0"
    by (metis less_nat_zero_code unat_0)
  with assms n show ?thesis
    by (auto simp: gst_discret11_audio_parse_set_property_def Let_def bind_result_def
        gst_discret11_audio_parse_set_config_channels_def copy_valarray_def memcpy_positions_def)
qed

text \<open>
  C10 on an array that does not fit, and on NULL with nine channels. The branch says of itself
  that it makes sure that \<open>channel_positions\<close> has enough room, and \<^verbatim>\<open>set_config_channels\<close>
  with \<^verbatim>\<open>set_positions\<close> FALSE only stores the count: the array has 64 entries, the property
  accepts an array of 65 values, and the loop then writes entry 64. And NULL on the element
  with nine positions in descending order restores nothing: the library has no fallback mask
  for nine channels and writes no position, the return of \<^verbatim>\<open>set_config_channels\<close> is not
  read, and the reordering flag is cleared over positions that are not in a valid order.
\<close>

theorem set_property_channel_positions_overrun:
  "length (channel_positions (properties_config started_element)) = 64
   \<and> gst_discret11_audio_parse_set_property gst_audio_lib started_element
       (PROP_CHANNEL_POSITIONS (Some (replicate 65 0))) = Inl OutOfBounds
   \<and> gst_discret11_audio_parse_set_property gst_audio_lib started_element
       (PROP_CHANNEL_POSITIONS (Some [8, 7, 6, 5, 4, 3, 2, 1, 0])) = Inr nine_channel_element
   \<and> gst_audio_channel_get_fallback_mask gst_audio_lib 9 = 0
   \<and> gst_discret11_audio_parse_set_config_channels gst_audio_lib
       (properties_config nine_channel_element) 9 0 True
     = Inr (False, (properties_config nine_channel_element)\<lparr>needs_channel_reordering := False\<rparr>)
   \<and> gst_discret11_audio_parse_set_property gst_audio_lib nine_channel_element
       (PROP_CHANNEL_POSITIONS None)
     = Inr (nine_channel_element
             \<lparr>properties_config :=
                (properties_config nine_channel_element)\<lparr>needs_channel_reordering := False\<rparr>\<rparr>)
   \<and> gst_audio_check_valid_channel_positions gst_audio_lib
       (channel_positions (properties_config nine_channel_element)) 9 True = False"
  by code_simp

subsection \<open>From capabilities to a configuration and back\<close>






end
